theory Spec2Isabelle
  imports Main "HOL-Library.Word"
begin

unbundle bit_operations_syntax

section \<open>Exceptions as values\<close>

text \<open>
  Every exception the decoder can raise is a value of \<open>error\<close>; a computation that may
  raise returns \<open>error + 'a\<close>, with \<open>Inl\<close> for the exception. The two exceptions the
  source raises itself carry (the fixed part of) their message.
\<close>

datatype error =
    AssertionError string
  | NotImplementedError string
  | StructError
  | UnicodeDecodeError
  | ZeroDivisionError
  | IndexError
  | KeyError
  | TypeError
  | ValueError
  | UnboundLocalError string

definition ebind :: "error + 'a \<Rightarrow> ('a \<Rightarrow> error + 'b) \<Rightarrow> error + 'b" where
  "ebind m k = (case m of Inl e \<Rightarrow> Inl e | Inr x \<Rightarrow> k x)"

section \<open>Values\<close>

type_synonym byte = "8 word"

text \<open>A Python \<open>str\<close> is its list of code points.\<close>

type_synonym unicode = "nat list"

definition ustr :: "string \<Rightarrow> unicode" where
  "ustr s = map of_char s"

text \<open>
  Floating-point arithmetic is not evaluated. A number is the term that denotes it: a
  leaf is an integer, the bit pattern of an IEEE single or double that \<open>struct.unpack\<close>
  turned into a Python float, or a numpy scalar (an element of a float32 array, or the
  median of the differences of such an array); the other constructors are the operations
  the decoder applies.
\<close>

datatype pynum =
    PyInt int
  | PyFloat32 "32 word"
  | PyFloat64 "64 word"
  | NpFloat32 "32 word"
  | NpMedianDiff "32 word list"
  | Quot pynum pynum
  | Prod pynum pynum
  | Diff pynum pynum
  | AsType string pynum

text \<open>
  Python's \<open>/\<close> raises ZeroDivisionError when the divisor is a Python number equal to
  zero (either sign of a float zero). A numpy scalar divisor gives inf or nan with a
  warning instead. The decoder only ever divides by leaves.
\<close>

fun py_is_zero :: "pynum \<Rightarrow> bool" where
  "py_is_zero (PyInt i) = (i = 0)"
| "py_is_zero (PyFloat32 w) = (w AND 0x7FFFFFFF = 0)"
| "py_is_zero (PyFloat64 w) = (w AND 0x7FFFFFFFFFFFFFFF = 0)"
| "py_is_zero _ = False"

definition truediv :: "pynum \<Rightarrow> pynum \<Rightarrow> error + pynum" where
  "truediv a b = (if py_is_zero b then Inl ZeroDivisionError else Inr (Quot a b))"

datatype val =
    VInt int
  | VFloat pynum
  | VBool bool
  | VBytes "byte list"
  | VStr unicode
  | VTuple "val list"

definition as_int :: "val \<Rightarrow> error + int" where
  "as_int v = (case v of VInt i \<Rightarrow> Inr i | _ \<Rightarrow> Inl TypeError)"

definition as_float :: "val \<Rightarrow> error + pynum" where
  "as_float v = (case v of VFloat x \<Rightarrow> Inr x | _ \<Rightarrow> Inl TypeError)"

definition as_str :: "val \<Rightarrow> error + unicode" where
  "as_str v = (case v of VStr s \<Rightarrow> Inr s | _ \<Rightarrow> Inl TypeError)"

definition as_bytes :: "val \<Rightarrow> error + byte list" where
  "as_bytes v = (case v of VBytes s \<Rightarrow> Inr s | _ \<Rightarrow> Inl TypeError)"

definition as_pair :: "val \<Rightarrow> error + val \<times> val" where
  "as_pair v = (case v of VTuple [a, b] \<Rightarrow> Inr (a, b) | _ \<Rightarrow> Inl TypeError)"

section \<open>The \<open>struct\<close> module, for the format codes the decoder uses\<close>

datatype endian = BigEndian | LittleEndian

definition order_char :: "endian \<Rightarrow> char" where
  "order_char e = (case e of BigEndian \<Rightarrow> CHR ''>'' | LittleEndian \<Rightarrow> CHR ''<'')"

definition be_nat :: "byte list \<Rightarrow> nat" where
  "be_nat bs = foldl (\<lambda>a b. a * 256 + unat b) 0 bs"

definition bytes_nat :: "endian \<Rightarrow> byte list \<Rightarrow> nat" where
  "bytes_nat e bs = (case e of BigEndian \<Rightarrow> be_nat bs | LittleEndian \<Rightarrow> be_nat (rev bs))"

definition to_signed :: "nat \<Rightarrow> nat \<Rightarrow> int" where
  "to_signed bits v = (if v < 2 ^ (bits - 1) then int v else int v - 2 ^ bits)"

text \<open>
  With an explicit byte order \<open>struct\<close> uses the standard sizes and no alignment.
  \<open>item_size\<close> is \<open>None\<close> for a character that is not one of the codes below.
\<close>

definition item_size :: "char \<Rightarrow> nat option" where
  "item_size c =
     (if c = CHR ''x'' \<or> c = CHR ''b'' \<or> c = CHR ''B'' \<or> c = CHR ''p'' then Some 1
      else if c = CHR ''h'' \<or> c = CHR ''H'' then Some 2
      else if c = CHR ''l'' \<or> c = CHR ''f'' then Some 4
      else if c = CHR ''d'' then Some 8
      else None)"

definition is_digit :: "char \<Rightarrow> bool" where
  "is_digit c = (48 \<le> (of_char c :: nat) \<and> (of_char c :: nat) \<le> 57)"

definition is_cspace :: "char \<Rightarrow> bool" where
  "is_cspace c = ((of_char c :: nat) = 32 \<or> (9 \<le> (of_char c :: nat) \<and> (of_char c :: nat) \<le> 13))"

text \<open>
  A format string is a sequence of codes, each with an optional repeat count; white
  space between the items is skipped, a count with no code after it is an error.
\<close>

fun parse_fmt :: "nat option \<Rightarrow> string \<Rightarrow> (nat \<times> char) list option" where
  "parse_fmt None [] = Some []"
| "parse_fmt (Some n) [] = None"
| "parse_fmt cnt (c # cs) =
     (if is_digit c then
        parse_fmt (Some (10 * (case cnt of None \<Rightarrow> 0 | Some n \<Rightarrow> n) + (of_char c - 48))) cs
      else if is_cspace c then
        (case cnt of None \<Rightarrow> parse_fmt None cs | Some n \<Rightarrow> None)
      else
        (case item_size c of
           None \<Rightarrow> None
         | Some k \<Rightarrow>
            (case parse_fmt None cs of
               None \<Rightarrow> None
             | Some r \<Rightarrow> Some ((case cnt of None \<Rightarrow> 1 | Some n \<Rightarrow> n, c) # r))))"

definition items_size :: "(nat \<times> char) list \<Rightarrow> nat" where
  "items_size its = sum_list (map (\<lambda>(n, c). n * the (item_size c)) its)"

definition calcsize :: "string \<Rightarrow> error + nat" where
  "calcsize fmt = (case parse_fmt None fmt of None \<Rightarrow> Inl StructError | Some its \<Rightarrow> Inr (items_size its))"

definition unpack_scalar :: "endian \<Rightarrow> char \<Rightarrow> byte list \<Rightarrow> val" where
  "unpack_scalar e c bs =
     (if c = CHR ''b'' \<or> c = CHR ''h'' \<or> c = CHR ''l'' then VInt (to_signed (8 * length bs) (bytes_nat e bs))
      else if c = CHR ''f'' then VFloat (PyFloat32 (of_nat (bytes_nat e bs)))
      else if c = CHR ''d'' then VFloat (PyFloat64 (of_nat (bytes_nat e bs)))
      else VInt (int (bytes_nat e bs)))"

text \<open>
  A Pascal string \<open>np\<close> occupies \<open>n\<close> bytes: a length byte, then the text, then padding;
  the length is capped at \<open>n - 1\<close>.
\<close>

definition unpack_pascal :: "byte list \<Rightarrow> val" where
  "unpack_pascal bs =
     (case bs of [] \<Rightarrow> VBytes [] | l # rest \<Rightarrow> VBytes (take (min (unat l) (length rest)) rest))"

fun unpack_reps :: "endian \<Rightarrow> char \<Rightarrow> nat \<Rightarrow> nat \<Rightarrow> byte list \<Rightarrow> val list" where
  "unpack_reps e c k 0 bs = []"
| "unpack_reps e c k (Suc n) bs = unpack_scalar e c (take k bs) # unpack_reps e c k n (drop k bs)"

fun unpack_items :: "endian \<Rightarrow> (nat \<times> char) list \<Rightarrow> byte list \<Rightarrow> val list" where
  "unpack_items e [] bs = []"
| "unpack_items e ((n, c) # its) bs =
     (let k = the (item_size c) in
      (if c = CHR ''x'' then []
       else if c = CHR ''p'' then [unpack_pascal (take n bs)]
       else unpack_reps e c k n bs) @ unpack_items e its (drop (n * k) bs))"

text \<open>\<open>struct.unpack\<close> raises unless the buffer has exactly the size the format asks for.\<close>

definition unpack :: "endian \<Rightarrow> string \<Rightarrow> byte list \<Rightarrow> error + val list" where
  "unpack e fmt bs =
     (case parse_fmt None fmt of
        None \<Rightarrow> Inl StructError
      | Some its \<Rightarrow> if length bs = items_size its then Inr (unpack_items e its bs) else Inl StructError)"

section \<open>Text codecs\<close>

fun utf16_units :: "endian \<Rightarrow> byte list \<Rightarrow> error + nat list" where
  "utf16_units e [] = Inr []"
| "utf16_units e [b] = Inl UnicodeDecodeError"
| "utf16_units e (a # b # bs) =
     (case utf16_units e bs of
        Inl err \<Rightarrow> Inl err
      | Inr us \<Rightarrow> Inr (bytes_nat e [a, b] # us))"

fun utf16_points :: "nat list \<Rightarrow> error + unicode" where
  "utf16_points [] = Inr []"
| "utf16_points [u] = (if 0xD800 \<le> u \<and> u < 0xE000 then Inl UnicodeDecodeError else Inr [u])"
| "utf16_points (u # v # us) =
     (if 0xD800 \<le> u \<and> u < 0xDC00 then
        (if 0xDC00 \<le> v \<and> v < 0xE000 then
           (case utf16_points us of
              Inl err \<Rightarrow> Inl err
            | Inr ps \<Rightarrow> Inr ((0x10000 + (u - 0xD800) * 0x400 + (v - 0xDC00)) # ps))
         else Inl UnicodeDecodeError)
      else if 0xDC00 \<le> u \<and> u < 0xE000 then Inl UnicodeDecodeError
      else (case utf16_points (v # us) of Inl err \<Rightarrow> Inl err | Inr ps \<Rightarrow> Inr (u # ps)))"

text \<open>\<open>bytes.decode('utf-16-be')\<close> and \<open>'utf-16-le'\<close>, strict: no byte order mark is looked for.\<close>

definition decode_utf16 :: "endian \<Rightarrow> byte list \<Rightarrow> error + unicode" where
  "decode_utf16 e bs = ebind (utf16_units e bs) utf16_points"

definition is_cont :: "byte \<Rightarrow> bool" where
  "is_cont b = (0x80 \<le> unat b \<and> unat b \<le> 0xBF)"

definition cont :: "byte \<Rightarrow> nat" where
  "cont b = unat b - 0x80"

text \<open>
  The second byte of a sequence of three or four bytes, after the lead byte \<open>x\<close>: a
  continuation byte, in a narrower range after E0 and F0 (no overlong forms), after ED (no
  surrogates) and after F4 (nothing above U+10FFFF).
\<close>

definition second_ok :: "nat \<Rightarrow> byte \<Rightarrow> bool" where
  "second_ok x b =
     ((if x = 0xE0 then 0xA0 else if x = 0xF0 then 0x90 else 0x80) \<le> unat b
      \<and> unat b \<le> (if x = 0xED then 0x9F else if x = 0xF4 then 0x8F else 0xBF))"

text \<open>\<open>bytes.decode('utf-8')\<close>, strict.\<close>

function decode_utf8 :: "byte list \<Rightarrow> error + unicode" where
  "decode_utf8 [] = Inr []"
| "decode_utf8 (a # bs) =
     (let x = unat a in
      if x < 0x80 then
        (case decode_utf8 bs of Inl err \<Rightarrow> Inl err | Inr ps \<Rightarrow> Inr (x # ps))
      else if 0xC2 \<le> x \<and> x \<le> 0xDF then
        (case bs of
           b # r \<Rightarrow>
             if is_cont b then
               (case decode_utf8 r of
                  Inl err \<Rightarrow> Inl err
                | Inr ps \<Rightarrow> Inr (((x - 0xC0) * 0x40 + cont b) # ps))
             else Inl UnicodeDecodeError
         | _ \<Rightarrow> Inl UnicodeDecodeError)
      else if 0xE0 \<le> x \<and> x \<le> 0xEF then
        (case bs of
           b # c # r \<Rightarrow>
             if second_ok x b \<and> is_cont c then
               (case decode_utf8 r of
                  Inl err \<Rightarrow> Inl err
                | Inr ps \<Rightarrow> Inr (((x - 0xE0) * 0x1000 + cont b * 0x40 + cont c) # ps))
             else Inl UnicodeDecodeError
         | _ \<Rightarrow> Inl UnicodeDecodeError)
      else if 0xF0 \<le> x \<and> x \<le> 0xF4 then
        (case bs of
           b # c # d # r \<Rightarrow>
             if second_ok x b \<and> is_cont c \<and> is_cont d then
               (case decode_utf8 r of
                  Inl err \<Rightarrow> Inl err
                | Inr ps \<Rightarrow> Inr (((x - 0xF0) * 0x40000 + cont b * 0x1000 + cont c * 0x40 + cont d) # ps))
             else Inl UnicodeDecodeError
         | _ \<Rightarrow> Inl UnicodeDecodeError)
      else Inl UnicodeDecodeError)"
  by pat_completeness auto
termination
  by (relation "measure length") auto

section \<open>StructFile: a buffered reader with a byte order\<close>

text \<open>
  The reader is the content of the file and a position. \<open>read n\<close> returns the next
  \<open>n\<close> bytes, or the fewer that are left: a short read is not an error for
  \<open>BufferedReader.read\<close>.
\<close>

record StructFile =
  byte_order :: endian
  content :: "byte list"
  pos :: nat

definition read :: "nat \<Rightarrow> StructFile \<Rightarrow> byte list \<times> StructFile" where
  "read n f = (let bs = take n (drop (pos f) (content f)) in (bs, f\<lparr>pos := pos f + length bs\<rparr>))"

definition read_all :: "StructFile \<Rightarrow> byte list \<times> StructFile" where
  "read_all f = (let bs = drop (pos f) (content f) in (bs, f\<lparr>pos := pos f + length bs\<rparr>))"

definition tell :: "StructFile \<Rightarrow> nat" where
  "tell f = pos f"

definition seek_cur :: "nat \<Rightarrow> StructFile \<Rightarrow> StructFile" where
  "seek_cur n f = f\<lparr>pos := pos f + n\<rparr>"

text \<open>Two states of a reader on the same file: only the position may differ.\<close>

definition same_file :: "StructFile \<Rightarrow> StructFile \<Rightarrow> bool" where
  "same_file f f' \<longleftrightarrow> content f' = content f \<and> byte_order f' = byte_order f"

text \<open>
  A reader given by the bytes behind its position, last byte first, and the bytes ahead
  of it.
\<close>

definition reader_at :: "endian \<Rightarrow> byte list \<Rightarrow> byte list \<Rightarrow> StructFile" where
  "reader_at e behind ahead = \<lparr>byte_order = e, content = rev behind @ ahead, pos = length behind\<rparr>"

definition read_and_unpack :: "string \<Rightarrow> StructFile \<Rightarrow> error + val list \<times> StructFile" where
  "read_and_unpack fmt f =
     ebind (calcsize fmt) (\<lambda>n.
       case read n f of (bs, f') \<Rightarrow>
         ebind (unpack (byte_order f) fmt bs) (\<lambda>vs. Inr (vs, f')))"

definition read_string :: "StructFile \<Rightarrow> error + unicode \<times> StructFile" where
  "read_string f =
     ebind (read_and_unpack ''l'' f) (\<lambda>(vs, f1).
       ebind (as_int (hd vs)) (\<lambda>len.
         if len > 0 then
           (case read (nat len) f1 of (bs, f2) \<Rightarrow>
              ebind (decode_utf16 (byte_order f2) bs) (\<lambda>s. Inr (s, f2)))
         else Inr ([], f1)))"

definition read_bool :: "StructFile \<Rightarrow> error + bool \<times> StructFile" where
  "read_bool f =
     ebind (read_and_unpack ''l'' f) (\<lambda>(vs, f1).
       ebind (as_int (hd vs)) (\<lambda>i. Inr (i \<noteq> 0, f1)))"

text \<open>
  \<open>read_f\<close> puts commas around every \<open>S\<close> and \<open>Z\<close> of the format and splits it at the
  commas; \<open>split_specials\<close> is that split. Each piece is read in turn, an empty piece
  unpacking to nothing.
\<close>

fun split_specials :: "string \<Rightarrow> string \<Rightarrow> string list" where
  "split_specials acc [] = [rev acc]"
| "split_specials acc (c # cs) =
     (if c = CHR ''S'' \<or> c = CHR ''Z'' then rev acc # [c] # split_specials [] cs
      else if c = CHR '','' then rev acc # split_specials [] cs
      else split_specials (c # acc) cs)"

fun read_subfmts :: "string list \<Rightarrow> val list \<Rightarrow> StructFile \<Rightarrow> error + val list \<times> StructFile" where
  "read_subfmts [] data_acc f = Inr (data_acc, f)"
| "read_subfmts (subfmt # rest) data_acc f =
     (if subfmt = ''S'' then
        ebind (read_string f) (\<lambda>(s, f'). read_subfmts rest (data_acc @ [VStr s]) f')
      else if subfmt = ''Z'' then
        ebind (read_bool f) (\<lambda>(b, f'). read_subfmts rest (data_acc @ [VBool b]) f')
      else
        ebind (read_and_unpack subfmt f) (\<lambda>(vs, f'). read_subfmts rest (data_acc @ vs) f'))"

definition read_f :: "string \<Rightarrow> StructFile \<Rightarrow> error + val \<times> StructFile" where
  "read_f fmt f =
     ebind (read_subfmts (split_specials [] fmt) [] f) (\<lambda>(data_acc, f').
       if length data_acc = 1 then Inr (hd data_acc, f') else Inr (VTuple data_acc, f'))"

section \<open>Text helpers of \<open>str\<close>\<close>

text \<open>The code points for which \<open>str.isspace\<close> holds; \<open>str.split()\<close> splits at runs of them.\<close>

definition is_space :: "nat \<Rightarrow> bool" where
  "is_space c =
     ((9 \<le> c \<and> c \<le> 13) \<or> (28 \<le> c \<and> c \<le> 32) \<or> c = 0x85 \<or> c = 0xA0 \<or> c = 0x1680
      \<or> (0x2000 \<le> c \<and> c \<le> 0x200A) \<or> c = 0x2028 \<or> c = 0x2029 \<or> c = 0x202F
      \<or> c = 0x205F \<or> c = 0x3000)"

fun split_ws :: "unicode \<Rightarrow> unicode \<Rightarrow> unicode list" where
  "split_ws acc [] = (if acc = [] then [] else [rev acc])"
| "split_ws acc (c # cs) =
     (if is_space c then (if acc = [] then split_ws [] cs else rev acc # split_ws [] cs)
      else split_ws (c # acc) cs)"

definition split :: "unicode \<Rightarrow> unicode list" where
  "split s = split_ws [] s"

fun join :: "unicode \<Rightarrow> unicode list \<Rightarrow> unicode" where
  "join sep [] = []"
| "join sep [t] = t"
| "join sep (t # ts) = t @ sep @ join sep ts"

definition strip :: "unicode \<Rightarrow> unicode \<Rightarrow> unicode" where
  "strip chars s = rev (dropWhile (\<lambda>c. c \<in> set chars) (rev (dropWhile (\<lambda>c. c \<in> set chars) s)))"

text \<open>
  Units are given in parentheses at the end of a column title, unless units are absent.
  The result is \<open>(name, units)\<close>.
\<close>

definition name_and_units :: "unicode \<Rightarrow> unicode \<times> unicode" where
  "name_and_units title =
     (if length (split title) > 0 \<and> hd (last (split title)) = of_char CHR ''(''
         \<and> last (last (split title)) = of_char CHR '')''
      then (join (ustr '' '') (butlast (split title)), strip (ustr ''()'') (last (split title)))
      else (title, []))"

section \<open>Memory-mapped arrays\<close>

text \<open>
  \<open>np.memmap\<close> is modelled by its contract: a read-only view of \<open>shape\<close> elements of the
  given type that starts at \<open>offset\<close> in the file, and that must lie within the file
  (mapping past the end of the file, or a negative shape, is a ValueError). The view
  holds no data: elements are read from the file when they are asked for. numpy's
  \<open>'l'\<close> is the C long of the platform, eight bytes on LP64.
\<close>

record memmap =
  mm_dtype :: string
  mm_offset :: nat
  mm_shape :: nat

definition np_itemsize :: "string \<Rightarrow> nat" where
  "np_itemsize dt = (if dt = ''h'' then 2 else if dt = ''f'' then 4 else 8)"

definition nbytes :: "memmap \<Rightarrow> nat" where
  "nbytes a = mm_shape a * np_itemsize (tl (mm_dtype a))"

definition np_memmap :: "byte list \<Rightarrow> string \<Rightarrow> nat \<Rightarrow> int \<Rightarrow> error + memmap" where
  "np_memmap file dt off shape =
     (if shape < 0 \<or> off + nat shape * np_itemsize (tl dt) > length file then Inl ValueError
      else Inr \<lparr>mm_dtype = dt, mm_offset = off, mm_shape = nat shape\<rparr>)"

text \<open>The elements of a float32 view, as bit patterns.\<close>

definition float32_elems :: "endian \<Rightarrow> byte list \<Rightarrow> memmap \<Rightarrow> 32 word list" where
  "float32_elems e file a =
     map (\<lambda>k. of_nat (bytes_nat e (take 4 (drop (mm_offset a + 4 * k) file)))) [0..<mm_shape a]"

section \<open>The column section\<close>

text \<open>One row of the signal-channel table, in the field order of the table's dtype.\<close>

record channel =
  name :: unicode
  chan_id :: int
  sampling_rate :: pynum
  dtype :: string
  units :: unicode
  gain :: pynum
  offset :: pynum
  group_id :: int

text \<open>
  The local variables that the column loop of \<open>_do_the_heavy_lifting\<close> carries from one
  column to the next. \<open>t_start\<close> and \<open>sampling_period\<close> are unbound (\<open>None\<close>) until the
  time column has been read.
\<close>

record columns_state =
  t_start :: "pynum option"
  sampling_period :: "pynum option"
  sigs_memmap :: "memmap list"
  sig_channels :: "channel list"

definition read_int :: "string \<Rightarrow> StructFile \<Rightarrow> error + int \<times> StructFile" where
  "read_int fmt f = ebind (read_f fmt f) (\<lambda>(v, f'). ebind (as_int v) (\<lambda>i. Inr (i, f')))"

definition read_float :: "string \<Rightarrow> StructFile \<Rightarrow> error + pynum \<times> StructFile" where
  "read_float fmt f = ebind (read_f fmt f) (\<lambda>(v, f'). ebind (as_float v) (\<lambda>x. Inr (x, f')))"

definition read_float_pair :: "string \<Rightarrow> StructFile \<Rightarrow> error + (pynum \<times> pynum) \<times> StructFile" where
  "read_float_pair fmt f =
     ebind (read_f fmt f) (\<lambda>(v, f').
       ebind (as_pair v) (\<lambda>(a, b).
         ebind (as_float a) (\<lambda>x. ebind (as_float b) (\<lambda>y. Inr ((x, y), f')))))"

text \<open>The column type: absent before version 3, a 4-byte tag from version 3 on.\<close>

definition read_col_type :: "int \<Rightarrow> StructFile \<Rightarrow> error + int option \<times> StructFile" where
  "read_col_type format_ver f =
     (if format_ver = 1 \<or> format_ver = 2 then Inr (None, f)
      else if format_ver \<ge> 3 then ebind (read_int ''l'' f) (\<lambda>(t, f'). Inr (Some t, f'))
      else Inl (NotImplementedError ''unimplemented file format version''))"

text \<open>The column title: an 80-byte Pascal string in UTF-8 before version 3, a length-prefixed string from version 3 on.\<close>

definition read_title :: "int \<Rightarrow> StructFile \<Rightarrow> error + unicode \<times> StructFile" where
  "read_title format_ver f =
     (if format_ver = 1 \<or> format_ver = 2 then
        ebind (read_f ''80p'' f) (\<lambda>(v, f').
          ebind (as_bytes v) (\<lambda>bs. ebind (decode_utf8 bs) (\<lambda>s. Inr (s, f'))))
      else if format_ver \<ge> 3 then
        ebind (read_f ''S'' f) (\<lambda>(v, f'). ebind (as_str v) (\<lambda>s. Inr (s, f')))
      else Inl (NotImplementedError ''unimplemented file format version''))"

text \<open>
  The end of the loop body, for a column that is kept: the samples are mapped at the
  current position, the position moves past them, and the channel's row and the view are
  appended. The sampling rate is \<open>1/sampling_period\<close>, which needs the time column to
  have been read.
\<close>

definition save_column ::
  "nat \<Rightarrow> int \<Rightarrow> unicode \<Rightarrow> unicode \<Rightarrow> string \<Rightarrow> pynum \<Rightarrow> pynum \<Rightarrow> StructFile \<Rightarrow> columns_state
     \<Rightarrow> error + StructFile \<times> columns_state" where
  "save_column i n_points nm un dt gn ofs f s =
     ebind (np_memmap (content f) (order_char (byte_order f) # dt) (tell f) n_points) (\<lambda>array.
       let f' = seek_cur (nbytes array) f in
       ebind (case sampling_period s of
                None \<Rightarrow> Inl (UnboundLocalError ''sampling_period'')
              | Some sp \<Rightarrow> truediv (PyInt 1) sp) (\<lambda>rate.
         let channel_info = \<lparr>name = nm, chan_id = int i, sampling_rate = rate,
                               dtype = order_char (byte_order f) # dt, units = un,
                               gain = gn, offset = ofs, group_id = 0\<rparr>
         in Inr (f', s\<lparr>sigs_memmap := sigs_memmap s @ [array],
                       sig_channels := sig_channels s @ [channel_info]\<rparr>)))"

text \<open>
  Format version 1: every column is an array of floats. The first is taken as the time
  column, assumed regular: its first element is the start time, the median of its
  differences the sampling period. The column is not saved.
\<close>

definition read_column_v1 ::
  "nat \<Rightarrow> int \<Rightarrow> unicode \<Rightarrow> unicode \<Rightarrow> StructFile \<Rightarrow> columns_state \<Rightarrow> error + StructFile \<times> columns_state" where
  "read_column_v1 i n_points nm un f s =
     (if i = 0 then
        ebind (np_memmap (content f) (order_char (byte_order f) # ''f'') (tell f) n_points) (\<lambda>array.
          let f' = seek_cur (nbytes array) f in
          if mm_shape array = 0 then Inl IndexError
          else
            let first_value = NpFloat32 (hd (float32_elems (byte_order f) (content f) array));
                increment = NpMedianDiff (float32_elems (byte_order f) (content f) array)
            in ebind (truediv (PyInt 1) increment) (\<lambda>freq.
                 Inr (f', s\<lparr>t_start := Some first_value, sampling_period := Some increment\<rparr>)))
      else save_column i n_points nm un ''f'' (PyInt 1) (PyInt 0) f s)"

text \<open>
  Format version 2: the first column is a series, given by a first value and an
  increment; every other column is an array of shorts with a gain.
\<close>

definition read_column_v2 ::
  "nat \<Rightarrow> int \<Rightarrow> unicode \<Rightarrow> unicode \<Rightarrow> StructFile \<Rightarrow> columns_state \<Rightarrow> error + StructFile \<times> columns_state" where
  "read_column_v2 i n_points nm un f s =
     (if i = 0 then
        ebind (read_float_pair ''ff'' f) (\<lambda>((first_value, increment), f').
          ebind (truediv (PyInt 1) increment) (\<lambda>freq.
            Inr (f', s\<lparr>t_start := Some first_value, sampling_period := Some increment\<rparr>)))
      else
        ebind (read_float ''f'' f) (\<lambda>(gn, f'). save_column i n_points nm un ''h'' gn (PyInt 0) f' s))"

text \<open>Format versions 3 and later: the column type says how the column is stored.\<close>

definition read_column_v3 ::
  "nat \<Rightarrow> int \<Rightarrow> int option \<Rightarrow> unicode \<Rightarrow> unicode \<Rightarrow> StructFile \<Rightarrow> columns_state
     \<Rightarrow> error + StructFile \<times> columns_state" where
  "read_column_v3 i n_points col_type nm un f s =
     (if col_type = Some 9 then
        ebind (read_float_pair ''dd'' f) (\<lambda>((first_value, increment), f').
          ebind (truediv (PyInt 1) increment) (\<lambda>freq.
            if i = 0 then Inr (f', s\<lparr>t_start := Some first_value, sampling_period := Some increment\<rparr>)
            else Inl (NotImplementedError ''series data are supported only for the first data column (time)!'')))
      else if col_type = Some 4 then save_column i n_points nm un ''h'' (PyInt 1) (PyInt 0) f s
      else if col_type = Some 5 then save_column i n_points nm un ''l'' (PyInt 1) (PyInt 0) f s
      else if col_type = Some 6 then save_column i n_points nm un ''f'' (PyInt 1) (PyInt 0) f s
      else if col_type = Some 7 then save_column i n_points nm un ''d'' (PyInt 1) (PyInt 0) f s
      else if col_type = Some 10 then
        ebind (read_float_pair ''dd'' f) (\<lambda>((gn, ofs), f'). save_column i n_points nm un ''h'' gn ofs f' s)
      else Inl (NotImplementedError ''unimplemented column type''))"

text \<open>The body of the column loop, for column \<open>i\<close>.\<close>

definition read_column :: "int \<Rightarrow> nat \<Rightarrow> StructFile \<Rightarrow> columns_state \<Rightarrow> error + StructFile \<times> columns_state" where
  "read_column format_ver i f s =
     ebind (read_int ''l'' f) (\<lambda>(n_points, f1).
       ebind (read_col_type format_ver f1) (\<lambda>(col_type, f2).
         ebind (read_title format_ver f2) (\<lambda>(title, f3).
           case name_and_units title of (nm, un) \<Rightarrow>
             if format_ver = 1 then read_column_v1 i n_points nm un f3 s
             else if format_ver = 2 then read_column_v2 i n_points nm un f3 s
             else if format_ver \<ge> 3 then read_column_v3 i n_points col_type nm un f3 s
             else Inl (NotImplementedError ''unimplemented file format version''))))"

text \<open>\<open>for i in range(n_cols)\<close>, from column \<open>i\<close> on, with \<open>k\<close> columns left.\<close>

fun read_columns :: "int \<Rightarrow> nat \<Rightarrow> nat \<Rightarrow> StructFile \<Rightarrow> columns_state \<Rightarrow> error + StructFile \<times> columns_state" where
  "read_columns format_ver i 0 f s = Inr (f, s)"
| "read_columns format_ver i (Suc k) f s =
     ebind (read_column format_ver i f s) (\<lambda>(f', s'). read_columns format_ver (Suc i) k f' s')"

section \<open>The sections after the columns (format version 3 and later)\<close>

text \<open>A Python dict is an association list in insertion order; assigning to a key that is present replaces its value.\<close>

type_synonym ('k, 'v) dict = "('k \<times> 'v) list"

definition dict_set :: "('k, 'v) dict \<Rightarrow> 'k \<Rightarrow> 'v \<Rightarrow> ('k, 'v) dict" where
  "dict_set d k v =
     (if k \<in> set (map fst d) then map (\<lambda>(k', v'). if k' = k then (k', v) else (k', v')) d
      else d @ [(k, v)])"

definition dict_get :: "('k, 'v) dict \<Rightarrow> 'k \<Rightarrow> error + 'v" where
  "dict_get d k = (case map_of d k of None \<Rightarrow> Inl KeyError | Some v \<Rightarrow> Inr v)"

definition FONT_BOLD :: int where "FONT_BOLD = 75"
definition FONT_NOT_BOLD :: int where "FONT_NOT_BOLD = 50"
definition FONT_ITALICS :: int where "FONT_ITALICS = 1"
definition FONT_UNDERLINE :: int where "FONT_UNDERLINE = 2"
definition FONT_STRIKEOUT :: int where "FONT_STRIKEOUT = 4"

definition TraceHeaderDescriptionV1 :: "(string \<times> string) list" where
  "TraceHeaderDescriptionV1 =
    [(''x_index'', ''l''),
     (''y_index'', ''l''),
     (''err_bar_index'', ''l''),
     (''group_id_for_this_trace'', ''l''),
     (''hidden'', ''Z''),
     (''min_x'', ''d''),
     (''max_x'', ''d''),
     (''min_positive_x'', ''d''),
     (''x_is_regularly_spaced'', ''Z''),
     (''x_increases_monotonically'', ''Z''),
     (''x_interval_if_regularly_spaced'', ''d''),
     (''min_y'', ''d''),
     (''max_y'', ''d''),
     (''min_positive_y'', ''d''),
     (''trace_color'', ''xBBB''),
     (''display_joined_line_plot'', ''Z''),
     (''line_thickness'', ''d''),
     (''pen_style'', ''l''),
     (''display_symbol_plot'', ''Z''),
     (''symbol_type'', ''l''),
     (''symbol_size'', ''l''),
     (''draw_every_data_point'', ''Z''),
     (''skip_points_by_distance_instead_of_pixels'', ''Z''),
     (''pixels_between_symbols'', ''l''),
     (''display_histogram_plot'', ''Z''),
     (''histogram_type'', ''l''),
     (''histogram_bar_separation'', ''l''),
     (''display_error_bars'', ''Z''),
     (''display_pos_err_bar'', ''Z''),
     (''display_neg_err_bar'', ''Z''),
     (''err_bar_width'', ''l'')]"

definition TraceHeaderDescriptionV2 :: "(string \<times> string) list" where
  "TraceHeaderDescriptionV2 =
     take 3 TraceHeaderDescriptionV1 @ [(''neg_err_bar_index'', ''l'')] @ drop 3 TraceHeaderDescriptionV1"

definition GroupHeaderDescriptionV1 :: "(string \<times> string) list" where
  "GroupHeaderDescriptionV1 =
    [(''title'', ''S''),
     (''unknown1'', ''h''),
     (''units'', ''S''),
     (''unknown2'', ''hll'')]"

definition FontSettingsDescription :: "(string \<times> string) list" where
  "FontSettingsDescription =
    [(''font'', ''S''),
     (''size'', ''h''),
     (''unknown1'', ''5b''),
     (''setting1'', ''B''),
     (''setting2'', ''B'')]"

definition XAxisSettingsDescription :: "(string \<times> string) list" where
  "XAxisSettingsDescription =
    [(''unknown1'', ''3l2d''),
     (''plotted_x_range'', ''dd''),
     (''unknown2'', ''d''),
     (''auto_x_ticks'', ''Z''),
     (''x_minor_ticks'', ''d''),
     (''x_major_ticks'', ''d''),
     (''x_axis_title'', ''S''),
     (''unknown3'', ''h''),
     (''units'', ''S''),
     (''unknown4'', ''h'')]"

definition EpochInfoDescription :: "(string \<times> string) list" where
  "EpochInfoDescription =
    [(''title'', ''S''),
     (''t_start'', ''d''),
     (''t_stop'', ''d''),
     (''y_pos'', ''d'')]"

text \<open>\<open>for key, fmt in Description: info[key] = f.read_f(fmt)\<close>\<close>

fun read_description ::
  "(string \<times> string) list \<Rightarrow> (string, val) dict \<Rightarrow> StructFile \<Rightarrow> error + (string, val) dict \<times> StructFile" where
  "read_description [] d f = Inr (d, f)"
| "read_description ((key, fmt) # rest) d f =
     ebind (read_f fmt f) (\<lambda>(v, f'). read_description rest (dict_set d key v) f')"

text \<open>
  The header version of a trace or group: 1 before format version 6, read from the file
  from format version 6 on.
\<close>

definition read_header_version :: "int \<Rightarrow> StructFile \<Rightarrow> error + int \<times> StructFile" where
  "read_header_version format_ver f = (if format_ver < 6 then Inr (1, f) else read_int ''l'' f)"

definition read_trace :: "int \<Rightarrow> StructFile \<Rightarrow> error + (string, val) dict \<times> StructFile" where
  "read_trace format_ver f =
     ebind (read_header_version format_ver f) (\<lambda>(ver, f1).
       if ver = 1 then read_description TraceHeaderDescriptionV1 [(''trace_header_version'', VInt ver)] f1
       else if ver = 2 then read_description TraceHeaderDescriptionV2 [(''trace_header_version'', VInt ver)] f1
       else Inl (NotImplementedError ''unimplemented trace header version''))"

text \<open>The trace loop, from trace \<open>i\<close> on, with \<open>k\<close> traces left. Traces are stored under \<open>i + 1\<close>.\<close>

fun read_traces ::
  "int \<Rightarrow> nat \<Rightarrow> nat \<Rightarrow> (int, (string, val) dict) dict \<Rightarrow> int list \<Rightarrow> StructFile
     \<Rightarrow> error + ((int, (string, val) dict) dict \<times> int list) \<times> StructFile" where
  "read_traces format_ver i 0 trace_header_info_list group_ids f = Inr ((trace_header_info_list, group_ids), f)"
| "read_traces format_ver i (Suc k) trace_header_info_list group_ids f =
     ebind (read_trace format_ver f) (\<lambda>(trace_header_info, f').
       ebind (ebind (dict_get trace_header_info ''group_id_for_this_trace'') as_int) (\<lambda>g.
         read_traces format_ver (Suc i) k
           (dict_set trace_header_info_list (int i + 1) trace_header_info) (group_ids @ [g]) f'))"

definition read_group :: "int \<Rightarrow> StructFile \<Rightarrow> error + (string, val) dict \<times> StructFile" where
  "read_group format_ver f =
     ebind (read_header_version format_ver f) (\<lambda>(ver, f1).
       if ver = 1 then read_description GroupHeaderDescriptionV1 [(''group_header_version'', VInt ver)] f1
       else Inl (NotImplementedError ''unimplemented group header version''))"

fun read_groups ::
  "int \<Rightarrow> int list \<Rightarrow> (int, (string, val) dict) dict \<Rightarrow> StructFile
     \<Rightarrow> error + (int, (string, val) dict) dict \<times> StructFile" where
  "read_groups format_ver [] group_header_info_list f = Inr (group_header_info_list, f)"
| "read_groups format_ver (i # rest) group_header_info_list f =
     ebind (read_group format_ver f) (\<lambda>(group_header_info, f').
       read_groups format_ver rest (dict_set group_header_info_list i group_header_info) f')"

text \<open>
  One episode list: a count, then one boolean per episode; the result is the count and
  the (1-based) numbers of the episodes whose boolean is set.
\<close>

fun read_episode_bools :: "nat \<Rightarrow> nat \<Rightarrow> int list \<Rightarrow> StructFile \<Rightarrow> error + int list \<times> StructFile" where
  "read_episode_bools i 0 acc f = Inr (acc, f)"
| "read_episode_bools i (Suc k) acc f =
     ebind (read_bool f) (\<lambda>(episode_bool, f').
       read_episode_bools (Suc i) k (if episode_bool then acc @ [int i + 1] else acc) f')"

definition read_episode_list :: "StructFile \<Rightarrow> error + (int \<times> int list) \<times> StructFile" where
  "read_episode_list f =
     ebind (read_int ''l'' f) (\<lambda>(n, f1).
       ebind (read_episode_bools 0 (nat n) [] f1) (\<lambda>(l, f2). Inr ((n, l), f2)))"

text \<open>
  The episode section: the list of episodes in review, whose count is \<open>n_episodes\<close>; in
  format version 5 a second list; then two more, the last one the masked episodes. The
  counts of the later lists are only compared with \<open>n_episodes\<close> for the log. The result
  is \<open>(n_episodes, episodes_in_review, masked_episodes)\<close>.
\<close>

definition read_episodes :: "int \<Rightarrow> StructFile \<Rightarrow> error + (int \<times> int list \<times> int list) \<times> StructFile" where
  "read_episodes format_ver f =
     ebind (read_episode_list f) (\<lambda>((n_episodes, episodes_in_review), f1).
       ebind (if format_ver = 5 then ebind (read_episode_list f1) (\<lambda>(old_unknown, f'). Inr f') else Inr f1) (\<lambda>f2.
         ebind (read_episode_list f2) (\<lambda>(unknown_episode_list, f3).
           ebind (read_episode_list f3) (\<lambda>((n_episodes4, masked_episodes), f4).
             Inr ((n_episodes, episodes_in_review, masked_episodes), f4)))))"

definition font_categories :: "int \<Rightarrow> string list" where
  "font_categories format_ver =
     (if format_ver \<ge> 6 then [''axis titles'', ''axis labels (ticks)'', ''notes'', ''graph title'']
      else [''everything (?)''])"

text \<open>One font-settings record, with the entries derived from the two setting bytes; 10.0 is \<open>PyFloat64 0x4024000000000000\<close>.\<close>

definition read_font_settings :: "StructFile \<Rightarrow> error + (string, val) dict \<times> StructFile" where
  "read_font_settings f =
     ebind (read_description FontSettingsDescription [] f) (\<lambda>(d, f').
       ebind (ebind (dict_get d ''setting1'') as_int) (\<lambda>setting1.
         ebind (ebind (dict_get d ''setting2'') as_int) (\<lambda>setting2.
           ebind (ebind (dict_get d ''size'') as_int) (\<lambda>sz.
             if setting1 \<noteq> FONT_BOLD \<and> setting1 \<noteq> FONT_NOT_BOLD then
               Inl (AssertionError ''expected setting1 to have value FONT_BOLD or FONT_NOT_BOLD'')
             else
               ebind (truediv (PyInt sz) (PyFloat64 0x4024000000000000)) (\<lambda>size'.
                 let d1 = dict_set d ''size'' (VFloat size');
                     d2 = dict_set d1 ''bold'' (VBool (setting1 = FONT_BOLD));
                     d3 = dict_set d2 ''italics'' (VBool (setting2 AND FONT_ITALICS \<noteq> 0));
                     d4 = dict_set d3 ''underline'' (VBool (setting2 AND FONT_UNDERLINE \<noteq> 0));
                     d5 = dict_set d4 ''strikeout'' (VBool (setting2 AND FONT_STRIKEOUT \<noteq> 0))
                 in Inr (d5, f'))))))"

fun read_fonts ::
  "string list \<Rightarrow> (string, (string, val) dict) dict \<Rightarrow> StructFile
     \<Rightarrow> error + (string, (string, val) dict) dict \<times> StructFile" where
  "read_fonts [] font_settings_info_list f = Inr (font_settings_info_list, f)"
| "read_fonts (i # rest) font_settings_info_list f =
     ebind (read_font_settings f) (\<lambda>(font_settings_info, f').
       read_fonts rest (dict_set font_settings_info_list i font_settings_info) f')"

fun read_ints :: "nat \<Rightarrow> int list \<Rightarrow> StructFile \<Rightarrow> error + int list \<times> StructFile" where
  "read_ints 0 acc f = Inr (acc, f)"
| "read_ints (Suc k) acc f = ebind (read_int ''l'' f) (\<lambda>(x, f'). read_ints k (acc @ [x]) f')"

fun read_strings :: "nat \<Rightarrow> unicode list \<Rightarrow> StructFile \<Rightarrow> error + unicode list \<times> StructFile" where
  "read_strings 0 acc f = Inr (acc, f)"
| "read_strings (Suc k) acc f =
     ebind (read_f ''S'' f) (\<lambda>(v, f'). ebind (as_str v) (\<lambda>s. read_strings k (acc @ [s]) f'))"

text \<open>
  The event section: two counts, the event indexes (as many as the second count says), a
  third count and that many labels. The result is \<open>(n_events, raw_event_timestamps, event_labels)\<close>.
\<close>

definition read_events :: "StructFile \<Rightarrow> error + (int \<times> int list \<times> unicode list) \<times> StructFile" where
  "read_events f =
     ebind (read_f ''ll'' f) (\<lambda>(v, f1).
       ebind (as_pair v) (\<lambda>(a, b).
         ebind (as_int a) (\<lambda>n_events.
           ebind (as_int b) (\<lambda>n_events_again.
             ebind (read_ints (nat n_events_again) [] f1) (\<lambda>(raw_event_timestamps, f2).
               ebind (read_int ''l'' f2) (\<lambda>(n_events_yet_again, f3).
                 ebind (read_strings (nat n_events_yet_again) [] f3) (\<lambda>(event_labels, f4).
                   Inr ((n_events, raw_event_timestamps, event_labels), f4))))))))"

text \<open>A name that is used before it was assigned raises UnboundLocalError.\<close>

definition bound :: "string \<Rightarrow> 'a option \<Rightarrow> error + 'a" where
  "bound nm v = (case v of None \<Rightarrow> Inl (UnboundLocalError nm) | Some x \<Rightarrow> Inr x)"

text \<open>The event list kept in \<open>info\<close>: the label and the time of each event, the time being index times sampling period.\<close>

fun make_event_list :: "pynum option \<Rightarrow> (unicode \<times> int) list \<Rightarrow> error + (unicode \<times> pynum) list" where
  "make_event_list sp [] = Inr []"
| "make_event_list sp ((event_label, event_index) # rest) =
     ebind (bound ''sampling_period'' sp) (\<lambda>p.
       ebind (make_event_list sp rest) (\<lambda>l. Inr ((event_label, Prod (PyInt event_index) p) # l)))"

fun read_epoch_list :: "nat \<Rightarrow> (string, val) dict list \<Rightarrow> StructFile \<Rightarrow> error + (string, val) dict list \<times> StructFile" where
  "read_epoch_list 0 acc f = Inr (acc, f)"
| "read_epoch_list (Suc k) acc f =
     ebind (read_description EpochInfoDescription [] f) (\<lambda>(epoch_info, f').
       read_epoch_list k (acc @ [epoch_info]) f')"

text \<open>
  The raw data of the epochs: start and duration of each, divided by the sampling period,
  and its title. The result is \<open>(raw_epoch_timestamps, raw_epoch_durations, epoch_labels)\<close>.
\<close>

fun epoch_arrays ::
  "pynum option \<Rightarrow> (string, val) dict list \<Rightarrow> error + pynum list \<times> pynum list \<times> unicode list" where
  "epoch_arrays sp [] = Inr ([], [], [])"
| "epoch_arrays sp (epoch # rest) =
     ebind (ebind (dict_get epoch ''t_start'') as_float) (\<lambda>t0.
       ebind (bound ''sampling_period'' sp) (\<lambda>p.
         ebind (truediv t0 p) (\<lambda>ts.
           ebind (ebind (dict_get epoch ''t_stop'') as_float) (\<lambda>t1.
             ebind (truediv (Diff t1 t0) p) (\<lambda>du.
               ebind (ebind (dict_get epoch ''title'') as_str) (\<lambda>lb.
                 ebind (epoch_arrays sp rest) (\<lambda>(tss, dus, lbs).
                   Inr (ts # tss, du # dus, lb # lbs))))))))"

section \<open>The decoded file\<close>

text \<open>The entries that \<open>info\<close> has only for format version 3 and later.\<close>

record info_v3 =
  n_cols :: int
  n_traces :: int
  n_groups :: int
  n_episodes :: int
  n_events :: int
  n_epochs :: int
  comment :: unicode
  notes_text :: unicode
  trace_header_info_list :: "(int, (string, val) dict) dict"
  group_header_info_list :: "(int, (string, val) dict) dict"
  event_list :: "(unicode \<times> pynum) list"
  epoch_list :: "(string, val) dict list"
  episodes_in_review :: "int list"
  masked_episodes :: "int list"
  font_settings_info_list :: "(string, (string, val) dict) dict"
  x_axis_settings_info :: "(string, val) dict"

record info =
  header_id :: unicode
  format_ver :: int
  info_t_start :: pynum
  info_sampling_period :: pynum
  v3 :: "info_v3 option"

record header =
  nb_block :: int
  nb_segment :: "int list"
  signal_channels :: "channel list"
  event_channels :: "(string \<times> string \<times> string) list"
  unit_channels :: "unit list"

text \<open>The attributes of the reader object once the file is decoded.\<close>

record rawio =
  header :: header
  self_sampling_period :: pynum
  self_t_start :: pynum
  raw_signals :: "memmap list list"
  raw_event_epoch_timestamps :: "pynum list list"
  raw_event_epoch_durations :: "pynum list option list"
  event_epoch_labels :: "unicode list list"
  info :: info

text \<open>The event and epoch data of a file: event indexes, epoch starts, epoch durations, event labels, epoch labels.\<close>

type_synonym annotations = "int list \<times> pynum list \<times> pynum list \<times> unicode list \<times> unicode list"

text \<open>Everything after the columns, for format version 3 and later, in file order.\<close>

definition read_metadata ::
  "int \<Rightarrow> int \<Rightarrow> pynum option \<Rightarrow> StructFile \<Rightarrow> error + (info_v3 \<times> annotations) \<times> StructFile" where
  "read_metadata fmt_ver ncols sp f0 =
     ebind (read_f ''S'' f0) (\<lambda>(v, f). ebind (as_str v) (\<lambda>cmt.
     ebind (read_f ''S'' f) (\<lambda>(v, f). ebind (as_str v) (\<lambda>nts.
     ebind (read_int ''l'' f) (\<lambda>(ntraces, f).
     ebind (read_traces fmt_ver 0 (nat ntraces) [] [] f) (\<lambda>((traces, gids), f).
     ebind (read_int ''l'' f) (\<lambda>(ngroups, f).
     let group_ids = sort (remdups gids) in
     if ngroups \<noteq> int (length group_ids) then Inl (AssertionError ''expected group_ids to have length n_groups'')
     else
     ebind (read_groups fmt_ver group_ids [] f) (\<lambda>(groups, f).
     ebind (read_f ''9l'' f) (\<lambda>(unknowns, f).
     ebind (read_episodes fmt_ver f) (\<lambda>((nepisodes, in_review, masked), f).
     ebind (read_f ''d 9l d 4l'' f) (\<lambda>(unknowns, f).
     ebind (read_fonts (font_categories fmt_ver) [] f) (\<lambda>(fonts, f).
     ebind (read_description XAxisSettingsDescription [] f) (\<lambda>(x_axis, f).
     ebind (read_f ''8l 3d 13l'' f) (\<lambda>(unknowns, f).
     ebind (read_events f) (\<lambda>((nevents, raw_event_timestamps, event_labels), f).
     ebind (make_event_list sp (zip event_labels raw_event_timestamps)) (\<lambda>events.
     ebind (read_f ''7l'' f) (\<lambda>(unknowns, f).
     ebind (read_int ''l'' f) (\<lambda>(nepochs, f).
     ebind (read_epoch_list (nat nepochs) [] f) (\<lambda>(epochs, f).
     ebind (epoch_arrays sp epochs) (\<lambda>(raw_epoch_timestamps, raw_epoch_durations, epoch_labels).
     case read_all f of (rest_of_the_file, f) \<Rightarrow>
       Inr ((\<lparr>n_cols = ncols, n_traces = ntraces, n_groups = ngroups, n_episodes = nepisodes,
                n_events = nevents, n_epochs = nepochs, comment = cmt, notes_text = nts,
                trace_header_info_list = traces, group_header_info_list = groups,
                event_list = events, epoch_list = epochs,
                episodes_in_review = in_review, masked_episodes = masked,
                font_settings_info_list = fonts, x_axis_settings_info = x_axis\<rparr>,
             (raw_event_timestamps, raw_epoch_timestamps, raw_epoch_durations, event_labels, epoch_labels)),
            f)))))))))))))))))))))"

text \<open>
  The start of the file: a 4-character identifier, then the format version and the
  number of columns, as 2-byte unsigned integers after \<open>AxGr\<close>, as 4-byte integers
  after \<open>axgx\<close>. The result is \<open>(header_id, format_ver, n_cols)\<close>.
\<close>

definition read_file_header :: "StructFile \<Rightarrow> error + (unicode \<times> int \<times> int) \<times> StructFile" where
  "read_file_header f =
     (case read 4 f of (bs, f1) \<Rightarrow>
        ebind (decode_utf8 bs) (\<lambda>hid.
          if hid \<noteq> ustr ''AxGr'' \<and> hid \<noteq> ustr ''axgx'' then Inl (AssertionError ''not an AxoGraph binary file!'')
          else if hid = ustr ''AxGr'' then
            ebind (read_f ''HH'' f1) (\<lambda>(v, f2). ebind (as_pair v) (\<lambda>(a, b).
              ebind (as_int a) (\<lambda>ver. ebind (as_int b) (\<lambda>ncols.
                if ver = 1 \<or> ver = 2 then Inr ((hid, ver, ncols), f2)
                else Inl (AssertionError ''mismatch between header identifier and format version'')))))
          else if hid = ustr ''axgx'' then
            ebind (read_f ''ll'' f1) (\<lambda>(v, f2). ebind (as_pair v) (\<lambda>(a, b).
              ebind (as_int a) (\<lambda>ver. ebind (as_int b) (\<lambda>ncols.
                if ver \<ge> 3 then Inr ((hid, ver, ncols), f2)
                else Inl (AssertionError ''mismatch between header identifier and format version'')))))
          else Inl (NotImplementedError ''unimplemented file header identifier'')))"

text \<open>
  What follows the columns. For format versions 1 and 2 the rest of the file must be
  empty, and there are no events or epochs.
\<close>

definition read_after_columns ::
  "int \<Rightarrow> int \<Rightarrow> pynum option \<Rightarrow> StructFile \<Rightarrow> error + info_v3 option \<times> annotations" where
  "read_after_columns fmt_ver ncols sp f =
     (if fmt_ver = 1 \<or> fmt_ver = 2 then
        (case read_all f of (rest_of_the_file, f') \<Rightarrow>
           if rest_of_the_file = [] then Inr (None, ([], [], [], [], []))
           else Inl (AssertionError ''rest_of_the_file''))
      else if fmt_ver \<ge> 3 then
        ebind (read_metadata fmt_ver ncols sp f) (\<lambda>((i3, ann), f'). Inr (Some i3, ann))
      else Inl (UnboundLocalError ''raw_event_timestamps''))"

text \<open>
  \<open>_do_the_heavy_lifting\<close>, on the content of the file: the reader is big-endian. The
  header is organised as one block with one segment; the start time and the sampling
  period must have been assigned by the column loop.
\<close>

definition do_the_heavy_lifting :: "byte list \<Rightarrow> error + rawio" where
  "do_the_heavy_lifting file =
     ebind (read_file_header \<lparr>byte_order = BigEndian, content = file, pos = 0\<rparr>) (\<lambda>((hid, ver, ncols), f).
       ebind (read_columns ver 0 (nat ncols) f
                \<lparr>t_start = None, sampling_period = None, sigs_memmap = [], sig_channels = []\<rparr>) (\<lambda>(f', s).
         ebind (read_after_columns ver ncols (sampling_period s) f')
           (\<lambda>(i3, (raw_event_timestamps, raw_epoch_timestamps, raw_epoch_durations, event_labels, epoch_labels)).
           ebind (bound ''sampling_period'' (sampling_period s)) (\<lambda>sp.
             ebind (bound ''t_start'' (t_start s)) (\<lambda>t0.
               Inr \<lparr>header = \<lparr>nb_block = 1, nb_segment = [1], signal_channels = sig_channels s,
                                event_channels = [(''AxoGraph Tags'', [], ''event''),
                                                  (''AxoGraph Intervals'', [], ''epoch'')],
                                unit_channels = []\<rparr>,
                    self_sampling_period = sp,
                    self_t_start = t0,
                    raw_signals = [sigs_memmap s],
                    raw_event_epoch_timestamps = [map PyInt raw_event_timestamps, raw_epoch_timestamps],
                    raw_event_epoch_durations = [None, Some raw_epoch_durations],
                    event_epoch_labels = [event_labels, epoch_labels],
                    info = \<lparr>header_id = hid, format_ver = ver, info_t_start = t0,
                             info_sampling_period = sp, v3 = i3\<rparr>\<rparr>)))))"

section \<open>Episodes as segments\<close>

text \<open>\<open>np.unique\<close> of a list of integers: its distinct elements, sorted.\<close>

definition unique :: "int list \<Rightarrow> int list" where
  "unique xs = sort (remdups xs)"

text \<open>The columns (\<open>y_index\<close>) of the traces that belong to a group, in trace order.\<close>

fun col_indexes_of :: "int \<Rightarrow> (int, (string, val) dict) dict \<Rightarrow> error + int list" where
  "col_indexes_of g [] = Inr []"
| "col_indexes_of g ((trace_index, trace_header) # rest) =
     ebind (ebind (dict_get trace_header ''group_id_for_this_trace'') as_int) (\<lambda>tg.
       ebind (if tg = g then ebind (ebind (dict_get trace_header ''y_index'') as_int) (\<lambda>y. Inr [y])
              else Inr []) (\<lambda>ys.
         ebind (col_indexes_of g rest) (\<lambda>r. Inr (ys @ r))))"

fun group_cols ::
  "(int, (string, val) dict) dict \<Rightarrow> (int, (string, val) dict) dict \<Rightarrow> error + (int, int list) dict" where
  "group_cols [] traces = Inr []"
| "group_cols ((g, group_header) # rest) traces =
     ebind (col_indexes_of g traces) (\<lambda>col_indexes.
       ebind (group_cols rest traces) (\<lambda>r. Inr ((g, col_indexes) # r)))"

text \<open>
  A row of the channel table without its id. The table is a numpy record array whose
  dtype is declared outside this file; how numpy compares two of its rows (text cut to
  the width of the field, floats by their value) is the parameter \<open>row_eq\<close> of the
  functions below.
\<close>

type_synonym params = "unicode \<times> pynum \<times> string \<times> unicode \<times> pynum \<times> pynum \<times> int"

definition drop_id :: "channel \<Rightarrow> params" where
  "drop_id c = (name c, sampling_rate c, dtype c, units c, gain c, offset c, group_id c)"

text \<open>
  Indexing an array with the column indexes less one: a negative index counts from the
  end, an index out of range is an IndexError, as is an empty index list (it is an array
  of floats).
\<close>

fun np_take :: "'a list \<Rightarrow> int list \<Rightarrow> error + 'a list" where
  "np_take xs [] = Inr []"
| "np_take xs (j # js) =
     (if j < - int (length xs) \<or> j \<ge> int (length xs) then Inl IndexError
      else ebind (np_take xs js) (\<lambda>r. Inr (xs ! nat (if j < 0 then j + int (length xs) else j) # r)))"

definition rows_of_group :: "params list \<Rightarrow> int list \<Rightarrow> error + params list" where
  "rows_of_group table col_indexes =
     (if col_indexes = [] then Inl IndexError else np_take table (map (\<lambda>c. c - 1) col_indexes))"

text \<open>\<open>len(np.unique(rows)) == 1\<close>: a single row, or several that are all equal.\<close>

definition uniform :: "(params \<Rightarrow> params \<Rightarrow> bool) \<Rightarrow> params list \<Rightarrow> bool" where
  "uniform row_eq rows =
     (if length rows = 1 then True
      else rows \<noteq> [] \<and> list_all (\<lambda>x. list_all (\<lambda>y. row_eq x y) rows) rows)"

fun groups_uniform ::
  "(params \<Rightarrow> params \<Rightarrow> bool) \<Rightarrow> params list \<Rightarrow> (int, int list) dict \<Rightarrow> error + bool list" where
  "groups_uniform row_eq table [] = Inr []"
| "groups_uniform row_eq table ((g, col_indexes) # rest) =
     ebind (rows_of_group table col_indexes) (\<lambda>rows.
       ebind (groups_uniform row_eq table rest) (\<lambda>r. Inr (uniform row_eq rows # r)))"

text \<open>
  \<open>_safe_to_treat_as_episodic\<close>: four checks in order, the first that fails answers
  \<open>False\<close>.
\<close>

definition safe_to_treat_as_episodic :: "(params \<Rightarrow> params \<Rightarrow> bool) \<Rightarrow> rawio \<Rightarrow> error + bool" where
  "safe_to_treat_as_episodic row_eq self =
     (if format_ver (info self) < 3 then Inr False
      else
        ebind (case v3 (info self) of None \<Rightarrow> Inl KeyError | Some i3 \<Rightarrow> Inr i3) (\<lambda>i3.
          ebind (group_cols (group_header_info_list i3) (trace_header_info_list i3)) (\<lambda>group_id_to_col_indexes.
            let n_traces_by_group = map (\<lambda>(k, v). (k, int (length v))) group_id_to_col_indexes in
            if length (unique (map snd n_traces_by_group)) \<noteq> 1 then Inr False
            else if hd (unique (map snd n_traces_by_group)) \<noteq> n_episodes i3 then Inr False
            else
              ebind (groups_uniform row_eq (map drop_id (signal_channels (header self))) group_id_to_col_indexes)
                (\<lambda>group_has_uniform_signal_parameters.
                  if \<not> list_all (\<lambda>b. b) group_has_uniform_signal_parameters then Inr False
                  else Inr True))))"

text \<open>
  \<open>a.reshape(n, -1)[0]\<close> for a one-dimensional array: its first \<open>len(a) / n\<close>
  elements; a ValueError unless \<open>n\<close> is positive and divides the length.
\<close>

definition reshape_first :: "'a list \<Rightarrow> int \<Rightarrow> error + 'a list" where
  "reshape_first xs n =
     (if 0 < n \<and> int (length xs) mod n = 0 then Inr (take (length xs div nat n) xs)
      else Inl ValueError)"

text \<open>\<open>np.arange(0, stop, step)\<close> for natural numbers; a step of zero is an error.\<close>

definition np_arange :: "nat \<Rightarrow> nat \<Rightarrow> error + nat list" where
  "np_arange stop step =
     (if step = 0 then Inl ZeroDivisionError
      else Inr (map (\<lambda>j. j * step) [0..<(stop + step - 1) div step]))"

text \<open>\<open>_convert_to_multi_segment\<close>: reshape the signal headers and the signal data for episodic data.\<close>

definition convert_to_multi_segment :: "rawio \<Rightarrow> error + rawio" where
  "convert_to_multi_segment self =
     ebind (case v3 (info self) of None \<Rightarrow> Inl KeyError | Some i3 \<Rightarrow> Inr i3) (\<lambda>i3.
       ebind (reshape_first (signal_channels (header self)) (n_episodes i3)) (\<lambda>chans.
         let n_traces_per_group = length chans in
         ebind (case raw_signals self of [] \<Rightarrow> Inl IndexError | sigs # _ \<Rightarrow> Inr sigs) (\<lambda>sigs.
           ebind (np_arange (length sigs) n_traces_per_group) (\<lambda>firsts.
             Inr (self\<lparr>header := (header self)\<lparr>nb_segment := [n_episodes i3], signal_channels := chans\<rparr>,
                       raw_signals := map (\<lambda>first_index. take n_traces_per_group (drop first_index sigs)) firsts\<rparr>)))))"

text \<open>
  \<open>_parse_header\<close>, on the content of the file. The heuristic is asked only when
  \<open>force_single_segment\<close> is not set. (The annotations that the base class generates
  at the end are outside this file.)
\<close>

definition parse_header :: "(params \<Rightarrow> params \<Rightarrow> bool) \<Rightarrow> bool \<Rightarrow> byte list \<Rightarrow> error + rawio" where
  "parse_header row_eq force_single_segment file =
     ebind (do_the_heavy_lifting file) (\<lambda>self.
       if force_single_segment then Inr self
       else
         ebind (safe_to_treat_as_episodic row_eq self) (\<lambda>episodic.
           if episodic then convert_to_multi_segment self else Inr self))"

section \<open>Signals in physical units\<close>

text \<open>
  Modelled from the spec: rescaling a raw sample \<open>s\<close> of a channel with gain \<open>g\<close> and
  offset \<open>o\<close> gives \<open>s * g + o\<close>. The base class does this, outside this file. The
  result is computed for a gain and an offset that are integers, in any ring.
\<close>

definition rescale_sample :: "'a::ring_1 \<Rightarrow> pynum \<Rightarrow> pynum \<Rightarrow> 'a option" where
  "rescale_sample s g ofs =
     (case (g, ofs) of (PyInt a, PyInt b) \<Rightarrow> Some (s * of_int a + of_int b) | _ \<Rightarrow> None)"

section \<open>Events and epochs in seconds\<close>

definition rescale_event_timestamp :: "rawio \<Rightarrow> pynum list \<Rightarrow> string \<Rightarrow> pynum list" where
  "rescale_event_timestamp self event_timestamps dt =
     map (\<lambda>t. Prod (AsType dt t) (self_sampling_period self)) event_timestamps"

definition rescale_epoch_duration :: "rawio \<Rightarrow> pynum list \<Rightarrow> string \<Rightarrow> pynum list" where
  "rescale_epoch_duration self raw_duration dt =
     map (\<lambda>d. Prod (AsType dt d) (self_sampling_period self)) raw_duration"

section \<open>Example files\<close>

text \<open>
  The files below are written section by section, in the order of the format. Titles of
  legacy columns are Pascal strings in 80 bytes; texts of later versions are UTF-16 with
  a 4-byte length in front.
\<close>

definition pascal80 :: "string \<Rightarrow> byte list" where
  "pascal80 s = of_nat (length s) # map of_char s @ replicate (79 - length s) 0"

definition utf16be :: "string \<Rightarrow> byte list" where
  "utf16be s = concat (map (\<lambda>c. [0, of_char c]) s)"

text \<open>
  A legacy file of version 2 with two columns. Column 0 is the time series: 3 points,
  title \<open>Time (s)\<close>, first value 0.0 and increment 0.5 as singles. Column 1 has 3
  points, title \<open>Current (pA)\<close>, gain 2.0 and the samples 1, 2, 3 as shorts. The file
  ends there.
\<close>

definition file_v2 :: "byte list" where
  "file_v2 =
     [0x41, 0x78, 0x47, 0x72, 0, 2, 0, 2]
     @ [0, 0, 0, 3] @ pascal80 ''Time (s)'' @ [0, 0, 0, 0, 0x3F, 0, 0, 0]
     @ [0, 0, 0, 3] @ pascal80 ''Current (pA)'' @ [0x40, 0, 0, 0] @ [0, 1, 0, 2, 0, 3]"

text \<open>The same file with one more byte at its end.\<close>

definition file_v2_trailing :: "byte list" where
  "file_v2_trailing = file_v2 @ [0]"

text \<open>
  A legacy file of version 1 with two columns of floats. Column 0, \<open>Time (s)\<close>, holds
  0.0 and 0.5. Column 1, \<open>Vm (mV)\<close>, has 0 points.
\<close>

definition file_v1 :: "byte list" where
  "file_v1 =
     [0x41, 0x78, 0x47, 0x72, 0, 1, 0, 2]
     @ [0, 0, 0, 2] @ pascal80 ''Time (s)'' @ [0, 0, 0, 0, 0x3F, 0, 0, 0]
     @ [0, 0, 0, 0] @ pascal80 ''Vm (mV)''"

text \<open>A legacy file of version 1 whose only column, the time column, has 0 points.\<close>

definition file_v1_empty_time :: "byte list" where
  "file_v1_empty_time = [0x41, 0x78, 0x47, 0x72, 0, 1, 0, 1] @ [0, 0, 0, 0] @ pascal80 ''''"

text \<open>
  The sections of the files of version 3. The time column: 2 points, type 9, no title,
  first value 0.0 and increment 0.001 as doubles. A signal column: 1 point, type 4
  (short), title \<open>Vm (mV)\<close>, and the sample 7.
\<close>

definition axgx_v3 :: "byte \<Rightarrow> byte list" where
  "axgx_v3 ncols = [0x61, 0x78, 0x67, 0x78, 0, 0, 0, 3, 0, 0, 0, ncols]"

definition time_column :: "byte list" where
  "time_column =
     [0, 0, 0, 2, 0, 0, 0, 9, 0, 0, 0, 0]
     @ [0, 0, 0, 0, 0, 0, 0, 0] @ [0x3F, 0x50, 0x62, 0x4D, 0xD2, 0xF1, 0xA9, 0xFC]"

definition vm_column :: "byte list" where
  "vm_column = [0, 0, 0, 1, 0, 0, 0, 4, 0, 0, 0, 14] @ utf16be ''Vm (mV)'' @ [0, 7]"

text \<open>The row of the channel table for such a signal column, when it is column \<open>i\<close>.\<close>

definition vm_channel :: "int \<Rightarrow> channel" where
  "vm_channel i =
     \<lparr>name = ustr ''Vm'', chan_id = i, sampling_rate = Quot (PyInt 1) (PyFloat64 0x3F50624DD2F1A9FC),
      dtype = ''>h'', units = ustr ''mV'', gain = PyInt 1, offset = PyInt 0, group_id = 0\<rparr>"

text \<open>
  A trace header (schema version 1, 156 bytes) with x column 0, y column \<open>y\<close>, no error
  bars and group \<open>g\<close>; of the other fields, the two flags about x and the flag for a
  joined line plot are set, everything else is zero.
\<close>

definition trace_bytes :: "byte \<Rightarrow> byte \<Rightarrow> byte list" where
  "trace_bytes y g =
     [0, 0, 0, 0, 0, 0, 0, y, 0, 0, 0, 0, 0, 0, 0, g]
     @ replicate 28 0 @ [0, 0, 0, 1, 0, 0, 0, 1] @ replicate 36 0 @ [0, 0, 0, 1] @ replicate 64 0"

text \<open>What \<open>trace_bytes y g\<close> decodes to.\<close>

definition trace_info :: "int \<Rightarrow> int \<Rightarrow> (string, val) dict" where
  "trace_info y g =
    [(''trace_header_version'', VInt 1),
     (''x_index'', VInt 0),
     (''y_index'', VInt y),
     (''err_bar_index'', VInt 0),
     (''group_id_for_this_trace'', VInt g),
     (''hidden'', VBool False),
     (''min_x'', VFloat (PyFloat64 0)),
     (''max_x'', VFloat (PyFloat64 0)),
     (''min_positive_x'', VFloat (PyFloat64 0)),
     (''x_is_regularly_spaced'', VBool True),
     (''x_increases_monotonically'', VBool True),
     (''x_interval_if_regularly_spaced'', VFloat (PyFloat64 0)),
     (''min_y'', VFloat (PyFloat64 0)),
     (''max_y'', VFloat (PyFloat64 0)),
     (''min_positive_y'', VFloat (PyFloat64 0)),
     (''trace_color'', VTuple [VInt 0, VInt 0, VInt 0]),
     (''display_joined_line_plot'', VBool True),
     (''line_thickness'', VFloat (PyFloat64 0)),
     (''pen_style'', VInt 0),
     (''display_symbol_plot'', VBool False),
     (''symbol_type'', VInt 0),
     (''symbol_size'', VInt 0),
     (''draw_every_data_point'', VBool False),
     (''skip_points_by_distance_instead_of_pixels'', VBool False),
     (''pixels_between_symbols'', VInt 0),
     (''display_histogram_plot'', VBool False),
     (''histogram_type'', VInt 0),
     (''histogram_bar_separation'', VInt 0),
     (''display_error_bars'', VBool False),
     (''display_pos_err_bar'', VBool False),
     (''display_neg_err_bar'', VBool False),
     (''err_bar_width'', VInt 0)]"

text \<open>A group header (20 bytes) with no title and no units, and what it decodes to.\<close>

definition group_bytes :: "byte list" where
  "group_bytes = replicate 20 0"

definition group_info :: "(string, val) dict" where
  "group_info =
    [(''group_header_version'', VInt 1),
     (''title'', VStr []),
     (''unknown1'', VInt 0),
     (''units'', VStr []),
     (''unknown2'', VTuple [VInt 0, VInt 0, VInt 0])]"

text \<open>
  The display settings: 68 reserved bytes, one font record (no font name, size 120,
  setting1 50, setting2 0), the settings of the x axis (plotted range 0.0 to 1.0,
  automatic ticks), and 108 reserved bytes; and what the two records decode to.
\<close>

definition font_bytes :: "byte list" where
  "font_bytes = [0, 0, 0, 0, 0, 120, 0, 0, 0, 0, 0, 50, 0]"

definition font_info :: "(string, val) dict" where
  "font_info =
    [(''font'', VStr []),
     (''size'', VFloat (Quot (PyInt 120) (PyFloat64 0x4024000000000000))),
     (''unknown1'', VTuple [VInt 0, VInt 0, VInt 0, VInt 0, VInt 0]),
     (''setting1'', VInt 50),
     (''setting2'', VInt 0),
     (''bold'', VBool False),
     (''italics'', VBool False),
     (''underline'', VBool False),
     (''strikeout'', VBool False)]"

definition x_axis_bytes :: "byte list" where
  "x_axis_bytes =
     replicate 36 0 @ [0x3F, 0xF0, 0, 0, 0, 0, 0, 0] @ replicate 8 0 @ [0, 0, 0, 1] @ replicate 28 0"

definition x_axis_info :: "(string, val) dict" where
  "x_axis_info =
    [(''unknown1'', VTuple [VInt 0, VInt 0, VInt 0, VFloat (PyFloat64 0), VFloat (PyFloat64 0)]),
     (''plotted_x_range'', VTuple [VFloat (PyFloat64 0), VFloat (PyFloat64 0x3FF0000000000000)]),
     (''unknown2'', VFloat (PyFloat64 0)),
     (''auto_x_ticks'', VBool True),
     (''x_minor_ticks'', VFloat (PyFloat64 0)),
     (''x_major_ticks'', VFloat (PyFloat64 0)),
     (''x_axis_title'', VStr []),
     (''unknown3'', VInt 0),
     (''units'', VStr []),
     (''unknown4'', VInt 0)]"

definition display_bytes :: "byte list" where
  "display_bytes = replicate 68 0 @ font_bytes @ x_axis_bytes @ replicate 108 0"

text \<open>The end of a file with no events and no epochs: three event counts, 28 reserved bytes, the epoch count.\<close>

definition no_events :: "byte list" where
  "no_events = replicate 12 0"

definition no_annotations :: "byte list" where
  "no_annotations = no_events @ replicate 28 0 @ [0, 0, 0, 0]"

text \<open>
  The sample array of such a signal column when it is column \<open>i\<close> of a file that is made
  of these sections: the columns take 28 bytes each, and the sample of column \<open>i\<close> is
  at offset \<open>38 + 28 * i\<close>.
\<close>

definition vm_samples :: "nat \<Rightarrow> memmap" where
  "vm_samples i = \<lparr>mm_dtype = ''>h'', mm_offset = 38 + 28 * i, mm_shape = 1\<rparr>"

text \<open>
  What a file of version 3 decodes to, when it is made of the sections above: the time
  column, then the signal columns \<open>cols\<close>, the given traces and groups, and no events
  and no epochs.
\<close>

definition decoded_v3 ::
  "nat list \<Rightarrow> (int, (string, val) dict) dict \<Rightarrow> (int, (string, val) dict) dict \<Rightarrow> int \<Rightarrow> int list \<Rightarrow> rawio" where
  "decoded_v3 cols traces groups nepisodes in_review =
     \<lparr>header =
        \<lparr>nb_block = 1, nb_segment = [1],
         signal_channels = map (\<lambda>i. vm_channel (int i)) cols,
         event_channels = [(''AxoGraph Tags'', [], ''event''), (''AxoGraph Intervals'', [], ''epoch'')],
         unit_channels = []\<rparr>,
      self_sampling_period = PyFloat64 0x3F50624DD2F1A9FC,
      self_t_start = PyFloat64 0,
      raw_signals = [map vm_samples cols],
      raw_event_epoch_timestamps = [[], []],
      raw_event_epoch_durations = [None, Some []],
      event_epoch_labels = [[], []],
      info =
        \<lparr>header_id = ustr ''axgx'', format_ver = 3, info_t_start = PyFloat64 0,
         info_sampling_period = PyFloat64 0x3F50624DD2F1A9FC,
         v3 = Some
           \<lparr>n_cols = int (Suc (length cols)), n_traces = int (length traces),
            n_groups = int (length groups),
            n_episodes = nepisodes, n_events = 0, n_epochs = 0, comment = [], notes_text = [],
            trace_header_info_list = traces, group_header_info_list = groups,
            event_list = [], epoch_list = [],
            episodes_in_review = in_review, masked_episodes = [],
            font_settings_info_list = [(''everything (?)'', font_info)],
            x_axis_settings_info = x_axis_info\<rparr>\<rparr>\<rparr>"

text \<open>
  A file of version 3 with the time column and two signal columns, but a single trace,
  for column 1, in a single group, and one episode.
\<close>

definition file_one_trace_two_columns :: "byte list" where
  "file_one_trace_two_columns =
     axgx_v3 3 @ time_column @ vm_column @ vm_column
     @ [0, 0, 0, 0] @ [0, 0, 0, 0]                          \<comment> \<open>comment, notes\<close>
     @ [0, 0, 0, 1] @ trace_bytes 1 0                       \<comment> \<open>traces\<close>
     @ [0, 0, 0, 1] @ group_bytes                           \<comment> \<open>groups\<close>
     @ replicate 36 0
     @ [0, 0, 0, 1, 0, 0, 0, 1] @ [0, 0, 0, 1, 0, 0, 0, 1] @ [0, 0, 0, 1, 0, 0, 0, 0]   \<comment> \<open>episode lists\<close>
     @ display_bytes @ no_annotations"

text \<open>
  A file of version 3 with the time column and two signal columns, which are the two
  traces of one group, and two episodes.
\<close>

definition file_two_episodes :: "byte list" where
  "file_two_episodes =
     axgx_v3 3 @ time_column @ vm_column @ vm_column
     @ [0, 0, 0, 0] @ [0, 0, 0, 0]
     @ [0, 0, 0, 2] @ trace_bytes 1 0 @ trace_bytes 2 0
     @ [0, 0, 0, 1] @ group_bytes
     @ replicate 36 0
     @ [0, 0, 0, 2, 0, 0, 0, 1, 0, 0, 0, 1] @ [0, 0, 0, 2, 0, 0, 0, 1, 0, 0, 0, 1]
     @ [0, 0, 0, 2, 0, 0, 0, 0, 0, 0, 0, 0]
     @ display_bytes @ no_annotations"

text \<open>
  A file of version 3 with the time column and three signal columns: columns 1 and 2 are
  the traces of group 0, column 3 is the only trace of group 1. It declares two episodes.
\<close>

definition file_uneven_groups :: "byte list" where
  "file_uneven_groups =
     axgx_v3 4 @ time_column @ vm_column @ vm_column @ vm_column
     @ [0, 0, 0, 0] @ [0, 0, 0, 0]
     @ [0, 0, 0, 3] @ trace_bytes 1 0 @ trace_bytes 2 0 @ trace_bytes 3 1
     @ [0, 0, 0, 2] @ group_bytes @ group_bytes
     @ replicate 36 0
     @ [0, 0, 0, 2, 0, 0, 0, 1, 0, 0, 0, 1] @ [0, 0, 0, 2, 0, 0, 0, 1, 0, 0, 0, 1]
     @ [0, 0, 0, 2, 0, 0, 0, 0, 0, 0, 0, 0]
     @ display_bytes @ no_annotations"

text \<open>
  The start of a file of version 3 with two columns: the time column, and a column of
  type 99 with 0 points and no title.
\<close>

definition file_type_99 :: "byte list" where
  "file_type_99 = axgx_v3 2 @ time_column @ [0, 0, 0, 0, 0, 0, 0, 99, 0, 0, 0, 0]"

text \<open>
  What the decoder produces for the example files that it accepts, before the
  heuristic is asked. For \<open>file_v2\<close>: one channel, \<open>Current\<close> in \<open>pA\<close>, with the gain
  2.0 of the file; the samples are the 3 shorts at offset 188.
\<close>

definition decoded_v2 :: rawio where
  "decoded_v2 =
     \<lparr>header =
        \<lparr>nb_block = 1, nb_segment = [1],
         signal_channels =
           [\<lparr>name = ustr ''Current'', chan_id = 1,
             sampling_rate = Quot (PyInt 1) (PyFloat32 0x3F000000),
             dtype = ''>h'', units = ustr ''pA'', gain = PyFloat32 0x40000000, offset = PyInt 0,
             group_id = 0\<rparr>],
         event_channels = [(''AxoGraph Tags'', [], ''event''), (''AxoGraph Intervals'', [], ''epoch'')],
         unit_channels = []\<rparr>,
      self_sampling_period = PyFloat32 0x3F000000,
      self_t_start = PyFloat32 0,
      raw_signals = [[\<lparr>mm_dtype = ''>h'', mm_offset = 188, mm_shape = 3\<rparr>]],
      raw_event_epoch_timestamps = [[], []],
      raw_event_epoch_durations = [None, Some []],
      event_epoch_labels = [[], []],
      info = \<lparr>header_id = ustr ''AxGr'', format_ver = 2, info_t_start = PyFloat32 0,
               info_sampling_period = PyFloat32 0x3F000000, v3 = None\<rparr>\<rparr>"

text \<open>
  For \<open>file_v1\<close>: the start time is the first element of the time column, the sampling
  period the median of its differences, and the channel \<open>Vm\<close> in \<open>mV\<close> has an empty
  array of floats at the end of the file.
\<close>

definition decoded_v1 :: rawio where
  "decoded_v1 =
     \<lparr>header =
        \<lparr>nb_block = 1, nb_segment = [1],
         signal_channels =
           [\<lparr>name = ustr ''Vm'', chan_id = 1,
             sampling_rate = Quot (PyInt 1) (NpMedianDiff [0, 0x3F000000]),
             dtype = ''>f'', units = ustr ''mV'', gain = PyInt 1, offset = PyInt 0,
             group_id = 0\<rparr>],
         event_channels = [(''AxoGraph Tags'', [], ''event''), (''AxoGraph Intervals'', [], ''epoch'')],
         unit_channels = []\<rparr>,
      self_sampling_period = NpMedianDiff [0, 0x3F000000],
      self_t_start = NpFloat32 0,
      raw_signals = [[\<lparr>mm_dtype = ''>f'', mm_offset = 184, mm_shape = 0\<rparr>]],
      raw_event_epoch_timestamps = [[], []],
      raw_event_epoch_durations = [None, Some []],
      event_epoch_labels = [[], []],
      info = \<lparr>header_id = ustr ''AxGr'', format_ver = 1, info_t_start = NpFloat32 0,
               info_sampling_period = NpMedianDiff [0, 0x3F000000], v3 = None\<rparr>\<rparr>"

text \<open>For the files of version 3.\<close>

definition decoded_one_trace_two_columns :: rawio where
  "decoded_one_trace_two_columns = decoded_v3 [1, 2] [(1, trace_info 1 0)] [(0, group_info)] 1 [1]"

definition decoded_two_episodes :: rawio where
  "decoded_two_episodes =
     decoded_v3 [1, 2] [(1, trace_info 1 0), (2, trace_info 2 0)] [(0, group_info)] 2 [1, 2]"

definition decoded_uneven_groups :: rawio where
  "decoded_uneven_groups =
     decoded_v3 [1, 2, 3] [(1, trace_info 1 0), (2, trace_info 2 0), (3, trace_info 3 1)]
       [(0, group_info), (1, group_info)] 2 [1, 2]"

section \<open>Basic facts about the reader\<close>

lemma ebind_simps [simp]:
  "ebind (Inl e) k = Inl e"
  "ebind (Inr x) k = k x"
  by (simp_all add: ebind_def)

lemma ebind_cong_weak: "m = m' \<Longrightarrow> ebind m k = ebind m' k"
  by simp

lemma ebind_eq_Inr: "ebind m k = Inr y \<longleftrightarrow> (\<exists>x. m = Inr x \<and> k x = Inr y)"
  by (cases m) simp_all

lemma calcsize_l: "calcsize ''l'' = Inr 4"
  by (simp add: calcsize_def items_size_def item_size_def is_digit_def is_cspace_def)

lemma unpack_l:
  "unpack e ''l'' bs = (if length bs = 4 then Inr [VInt (to_signed 32 (bytes_nat e bs))] else Inl StructError)"
  by (simp add: unpack_def items_size_def item_size_def unpack_scalar_def is_digit_def is_cspace_def)

lemma read_and_unpack_l:
  "read_and_unpack ''l'' f =
     (if pos f + 4 \<le> length (content f)
      then Inr ([VInt (to_signed 32 (bytes_nat (byte_order f) (take 4 (drop (pos f) (content f)))))],
                f\<lparr>pos := pos f + 4\<rparr>)
      else Inl StructError)"
  by (auto simp add: read_and_unpack_def calcsize_l unpack_l read_def Let_def)

section \<open>Length-prefixed text\<close>

text \<open>
  C8, as the code has it. \<open>read_string\<close> first reads a 4-byte signed length in the byte
  order of the reader, and fails when fewer than four bytes are left. A length that is
  zero or negative gives the empty string, and nothing after the length is consumed. For
  a positive length the reader asks for that many bytes and decodes what it gets as
  UTF-16 in its byte order: it gets exactly that many bytes when the stream holds them,
  and otherwise the bytes that are left, since a short read is not an error.
\<close>

theorem read_string_spec:
  "read_string f =
     (if length (content f) < pos f + 4 then Inl StructError
      else
        let len = to_signed 32 (bytes_nat (byte_order f) (take 4 (drop (pos f) (content f)))) in
        if len \<le> 0 then Inr ([], f\<lparr>pos := pos f + 4\<rparr>)
        else
          (case decode_utf16 (byte_order f) (take (nat len) (drop (pos f + 4) (content f))) of
             Inl e \<Rightarrow> Inl e
           | Inr s \<Rightarrow> Inr (s, f\<lparr>pos := pos f + 4 + min (nat len) (length (content f) - (pos f + 4))\<rparr>)))"
  by (auto simp add: read_string_def read_and_unpack_l as_int_def read_def Let_def ebind_def min_def
      split: sum.splits)

text \<open>
  The text \<open>AB\<close> with its length of 4, followed by another byte: four bytes are decoded
  and the position is 8. A length of -1: the empty string, and the position is 4.
\<close>

theorem read_string_spec_witness:
  "read_string \<lparr>byte_order = BigEndian, content = [0, 0, 0, 4, 0, 0x41, 0, 0x42, 7], pos = 0\<rparr>
     = Inr ([0x41, 0x42], \<lparr>byte_order = BigEndian, content = [0, 0, 0, 4, 0, 0x41, 0, 0x42, 7], pos = 8\<rparr>)
   \<and> read_string \<lparr>byte_order = LittleEndian, content = [0xFF, 0xFF, 0xFF, 0xFF, 0x41, 0], pos = 0\<rparr>
     = Inr ([], \<lparr>byte_order = LittleEndian, content = [0xFF, 0xFF, 0xFF, 0xFF, 0x41, 0], pos = 4\<rparr>)"
  using read_string_spec [of "\<lparr>byte_order = BigEndian, content = [0, 0, 0, 4, 0, 0x41, 0, 0x42, 7], pos = 0\<rparr>"]
    read_string_spec [of "\<lparr>byte_order = LittleEndian, content = [0xFF, 0xFF, 0xFF, 0xFF, 0x41, 0], pos = 0\<rparr>"]
  by (simp add: to_signed_def bytes_nat_def be_nat_def decode_utf16_def)

text \<open>
  C8 as stated fails when the stream ends early: the length says 4, two bytes are left,
  and \<open>read_string\<close> returns the one character they hold, having read two bytes, not four.
\<close>

theorem read_string_short_read:
  "to_signed 32 (bytes_nat BigEndian [0, 0, 0, 4]) = 4
   \<and> read_string \<lparr>byte_order = BigEndian, content = [0, 0, 0, 4, 0, 0x41], pos = 0\<rparr>
     = Inr ([0x41], \<lparr>byte_order = BigEndian, content = [0, 0, 0, 4, 0, 0x41], pos = 6\<rparr>)"
  by (simp add: read_string_def read_and_unpack_l as_int_def read_def to_signed_def bytes_nat_def
      be_nat_def decode_utf16_def)

section \<open>Events and epochs in seconds\<close>

text \<open>
  C6. Rescaling event or epoch timestamps, and rescaling epoch durations, multiplies
  each raw value, converted to the requested type, by the sampling period. The start
  time of the file plays no part: whatever it is, the results are the same.
\<close>

theorem rescale_is_product:
  "rescale_event_timestamp self ts dt = map (\<lambda>t. Prod (AsType dt t) (self_sampling_period self)) ts
   \<and> rescale_epoch_duration self ds dt = map (\<lambda>d. Prod (AsType dt d) (self_sampling_period self)) ds
   \<and> rescale_event_timestamp (self\<lparr>self_t_start := t0\<rparr>) ts dt = rescale_event_timestamp self ts dt
   \<and> rescale_epoch_duration (self\<lparr>self_t_start := t0\<rparr>) ds dt = rescale_epoch_duration self ds dt"
  by (simp add: rescale_event_timestamp_def rescale_epoch_duration_def)

section \<open>The shape of a decoded file\<close>

lemma bound_eq_Inr: "bound nm v = Inr x \<longleftrightarrow> v = Some x"
  by (cases v) (simp_all add: bound_def)

lemma do_the_heavy_lifting_Inr:
  assumes "do_the_heavy_lifting file = Inr self"
  obtains hid ver ncols f0 f1 s i3 ann sp t0 where
    "read_file_header \<lparr>byte_order = BigEndian, content = file, pos = 0\<rparr> = Inr ((hid, ver, ncols), f0)"
    "read_columns ver 0 (nat ncols) f0
       \<lparr>t_start = None, sampling_period = None, sigs_memmap = [], sig_channels = []\<rparr> = Inr (f1, s)"
    "read_after_columns ver ncols (sampling_period s) f1 = Inr (i3, ann)"
    "sampling_period s = Some sp" "t_start s = Some t0"
    "header self = \<lparr>nb_block = 1, nb_segment = [1], signal_channels = sig_channels s,
                     event_channels = [(''AxoGraph Tags'', [], ''event''), (''AxoGraph Intervals'', [], ''epoch'')],
                     unit_channels = []\<rparr>"
    "self_sampling_period self = sp" "self_t_start self = t0" "raw_signals self = [sigs_memmap s]"
    "format_ver (info self) = ver" "v3 (info self) = i3"
  using assms unfolding do_the_heavy_lifting_def
  by (auto simp add: ebind_eq_Inr bound_eq_Inr)

lemma read_columns_append:
  "read_columns ver i (a + b) f s =
     ebind (read_columns ver i a f s) (\<lambda>(f', s'). read_columns ver (i + a) b f' s')"
proof (induction a arbitrary: i f s)
  case 0
  then show ?case by simp
next
  case (Suc a)
  show ?case
  proof (cases "read_column ver i f s")
    case (Inl e)
    then show ?thesis by simp
  next
    case (Inr r)
    then show ?thesis using Suc [of "Suc i"] by (cases r) simp
  qed
qed

lemma read_column_bad_type:
  assumes "3 \<le> ver"
    and "read_int ''l'' f = Inr (n_points, f1)"
    and "read_int ''l'' f1 = Inr (tag, f2)"
    and "read_title ver f2 = Inr (title, f3)"
    and "tag \<notin> {9, 4, 5, 6, 7, 10}"
  shows "read_column ver i f s = Inl (NotImplementedError ''unimplemented column type'')"
  using assms
  by (simp add: read_column_def read_col_type_def read_column_v3_def split: prod.splits)


text \<open>
  C5. Take a file of format version 3 or later whose column \<open>i\<close> has a type tag
  outside 9, 4, 5, 6, 7 and 10: the columns before it are decoded, and the point count,
  the type tag and the title of column \<open>i\<close> are read. Then the body of the column loop
  raises NotImplementedError for the unimplemented column type. It does so before
  anything is appended for the column, so no channel is emitted for it, and decoding the
  file fails with that error, whatever the options.
\<close>

theorem unknown_column_type:
  assumes "read_file_header \<lparr>byte_order = BigEndian, content = file, pos = 0\<rparr> = Inr ((hid, ver, ncols), f0)"
    and "3 \<le> ver"
    and "i < nat ncols"
    and "read_columns ver 0 i f0
           \<lparr>t_start = None, sampling_period = None, sigs_memmap = [], sig_channels = []\<rparr> = Inr (f, s)"
    and "read_int ''l'' f = Inr (n_points, f1)"
    and "read_int ''l'' f1 = Inr (tag, f2)"
    and "read_title ver f2 = Inr (title, f3)"
    and "tag \<notin> {9, 4, 5, 6, 7, 10}"
  shows "read_column ver i f s = Inl (NotImplementedError ''unimplemented column type'')
         \<and> do_the_heavy_lifting file = Inl (NotImplementedError ''unimplemented column type'')
         \<and> parse_header row_eq force_single_segment file = Inl (NotImplementedError ''unimplemented column type'')"
proof -
  have col: "read_column ver i f s = Inl (NotImplementedError ''unimplemented column type'')"
    using assms(2,5-8) by (rule read_column_bad_type)
  define k where "k = nat ncols - Suc i"
  have k: "nat ncols = i + Suc k"
    using assms(3) by (simp add: k_def)
  have "read_columns ver 0 (nat ncols) f0
          \<lparr>t_start = None, sampling_period = None, sigs_memmap = [], sig_channels = []\<rparr>
        = Inl (NotImplementedError ''unimplemented column type'')"
    using read_columns_append [of ver 0 i "Suc k" f0] assms(4) col by (simp add: k)
  then have heavy: "do_the_heavy_lifting file = Inl (NotImplementedError ''unimplemented column type'')"
    using assms(1) by (simp add: do_the_heavy_lifting_def)
  then show ?thesis
    using col by (simp add: parse_header_def)
qed

text \<open>
  C2, as the code has it. For a legacy file (identifier \<open>AxGr\<close>, version 1 or 2), if
  bytes are left in the stream after the columns are decoded, the assertion that the rest
  of the file is empty fails: decoding stops with an AssertionError and no header is
  produced. Trailing bytes are fatal, they are not recorded and passed over.
\<close>

theorem legacy_trailing_bytes:
  assumes "read_file_header \<lparr>byte_order = BigEndian, content = file, pos = 0\<rparr> = Inr ((hid, ver, ncols), f0)"
    and "ver = 1 \<or> ver = 2"
    and "read_columns ver 0 (nat ncols) f0
           \<lparr>t_start = None, sampling_period = None, sigs_memmap = [], sig_channels = []\<rparr> = Inr (f, s)"
    and "pos f < length (content f)"
  shows "do_the_heavy_lifting file = Inl (AssertionError ''rest_of_the_file'')
         \<and> parse_header row_eq force_single_segment file = Inl (AssertionError ''rest_of_the_file'')"
proof -
  have "read_after_columns ver ncols (sampling_period s) f = Inl (AssertionError ''rest_of_the_file'')"
    using assms(2,4) by (auto simp add: read_after_columns_def read_all_def Let_def)
  then have "do_the_heavy_lifting file = Inl (AssertionError ''rest_of_the_file'')"
    using assms(1,3) by (simp add: do_the_heavy_lifting_def)
  then show ?thesis by (simp add: parse_header_def)
qed

text \<open>
  C10. With \<open>force_single_segment\<close> set, a file that is decoded has exactly one
  segment: the result is the one \<open>_do_the_heavy_lifting\<close> produced, unchanged. The
  heuristic plays no part in it: the result is the same for every way of comparing
  table rows, and \<open>parse_header\<close> with the option set is defined without it.
\<close>

theorem forced_single_segment:
  assumes "parse_header row_eq True file = Inr self"
  shows "nb_segment (header self) = [1]
         \<and> do_the_heavy_lifting file = Inr self
         \<and> parse_header row_eq' True file = Inr self"
proof -
  have heavy: "do_the_heavy_lifting file = Inr self"
    using assms by (auto simp add: parse_header_def ebind_eq_Inr)
  then have "nb_segment (header self) = [1]"
    by (rule do_the_heavy_lifting_Inr) simp
  then show ?thesis using heavy by (simp add: parse_header_def)
qed

section \<open>The column loop\<close>

lemma truediv_eq_Inr: "truediv a b = Inr r \<longleftrightarrow> \<not> py_is_zero b \<and> r = Quot a b"
  by (auto simp add: truediv_def)

lemma save_column_Inr:
  assumes "save_column i n nm un dt gn ofs f s = Inr (f', s')"
  obtains array sp where
    "np_memmap (content f) (order_char (byte_order f) # dt) (pos f) n = Inr array"
    "sampling_period s = Some sp" "\<not> py_is_zero sp"
    "f' = seek_cur (nbytes array) f"
    "s' = s\<lparr>sigs_memmap := sigs_memmap s @ [array],
             sig_channels := sig_channels s @
               [\<lparr>name = nm, chan_id = int i, sampling_rate = Quot (PyInt 1) sp,
                 dtype = order_char (byte_order f) # dt, units = un, gain = gn, offset = ofs,
                 group_id = 0\<rparr>]\<rparr>"
  using assms unfolding save_column_def
  by (auto simp add: ebind_eq_Inr Let_def tell_def truediv_eq_Inr split: option.splits)

lemma save_column_unbound:
  "sampling_period s = None \<Longrightarrow> save_column i n nm un dt gn ofs f s \<noteq> Inr r"
  by (cases r) (auto elim: save_column_Inr)

lemma read_column_Inr:
  assumes "read_column ver i f s = Inr r"
  obtains n_points f1 col_type f2 title f3 where
    "read_int ''l'' f = Inr (n_points, f1)"
    "read_col_type ver f1 = Inr (col_type, f2)"
    "read_title ver f2 = Inr (title, f3)"
    "(ver = 1 \<and> read_column_v1 i n_points (fst (name_and_units title)) (snd (name_and_units title)) f3 s = Inr r)
     \<or> (ver = 2 \<and> read_column_v2 i n_points (fst (name_and_units title)) (snd (name_and_units title)) f3 s = Inr r)
     \<or> (3 \<le> ver \<and> read_column_v3 i n_points col_type (fst (name_and_units title)) (snd (name_and_units title)) f3 s = Inr r)"
proof -
  from assms obtain n_points f1 where 1: "read_int ''l'' f = Inr (n_points, f1)"
    unfolding read_column_def by (auto simp add: ebind_eq_Inr)
  from assms 1 obtain col_type f2 where 2: "read_col_type ver f1 = Inr (col_type, f2)"
    unfolding read_column_def by (auto simp add: ebind_eq_Inr)
  from assms 1 2 obtain title f3 where 3: "read_title ver f2 = Inr (title, f3)"
    unfolding read_column_def by (auto simp add: ebind_eq_Inr)
  from assms 1 2 3 have
    "(ver = 1 \<and> read_column_v1 i n_points (fst (name_and_units title)) (snd (name_and_units title)) f3 s = Inr r)
     \<or> (ver = 2 \<and> read_column_v2 i n_points (fst (name_and_units title)) (snd (name_and_units title)) f3 s = Inr r)
     \<or> (3 \<le> ver \<and> read_column_v3 i n_points col_type (fst (name_and_units title)) (snd (name_and_units title)) f3 s = Inr r)"
    unfolding read_column_def by (simp add: case_prod_beta split: if_splits)
  with 1 2 3 show thesis by (rule that)
qed

lemma save_column_adds:
  assumes "save_column i n nm un dt gn ofs f s = Inr (f', s')"
  shows "t_start s' = t_start s \<and> sampling_period s' = sampling_period s
         \<and> (\<exists>c a. sig_channels s' = sig_channels s @ [c] \<and> chan_id c = int i
                    \<and> sigs_memmap s' = sigs_memmap s @ [a])"
  using assms by (rule save_column_Inr) simp

lemma read_column_v1_later:
  assumes "read_column_v1 i n nm un f s = Inr (f', s')" and "0 < i"
  shows "t_start s' = t_start s \<and> sampling_period s' = sampling_period s
         \<and> (\<exists>c a. sig_channels s' = sig_channels s @ [c] \<and> chan_id c = int i
                    \<and> sigs_memmap s' = sigs_memmap s @ [a])"
  using assms by (auto simp add: read_column_v1_def dest: save_column_adds)

lemma read_column_v2_later:
  assumes "read_column_v2 i n nm un f s = Inr (f', s')" and "0 < i"
  shows "t_start s' = t_start s \<and> sampling_period s' = sampling_period s
         \<and> (\<exists>c a. sig_channels s' = sig_channels s @ [c] \<and> chan_id c = int i
                    \<and> sigs_memmap s' = sigs_memmap s @ [a])"
  using assms by (auto simp add: read_column_v2_def ebind_eq_Inr dest: save_column_adds)

lemma read_column_v3_later:
  assumes "read_column_v3 i n ct nm un f s = Inr (f', s')" and "0 < i"
  shows "t_start s' = t_start s \<and> sampling_period s' = sampling_period s
         \<and> (\<exists>c a. sig_channels s' = sig_channels s @ [c] \<and> chan_id c = int i
                    \<and> sigs_memmap s' = sigs_memmap s @ [a])"
proof (cases "ct = Some 9")
  case True
  then show ?thesis
    using assms by (auto simp add: read_column_v3_def ebind_eq_Inr)
next
  case False
  then obtain f1 dt gn ofs where "save_column i n nm un dt gn ofs f1 s = Inr (f', s')"
    using assms(1) by (auto simp add: read_column_v3_def ebind_eq_Inr split: if_splits)
  then show ?thesis by (rule save_column_adds)
qed

text \<open>What a column after the first adds.\<close>

lemma read_column_later:
  assumes "read_column ver i f s = Inr (f', s')" and "0 < i"
  shows "t_start s' = t_start s \<and> sampling_period s' = sampling_period s
         \<and> (\<exists>c a. sig_channels s' = sig_channels s @ [c] \<and> chan_id c = int i
                    \<and> sigs_memmap s' = sigs_memmap s @ [a])"
  using assms(1)
proof (rule read_column_Inr)
  fix n_points f1 col_type f2 title f3
  assume "(ver = 1 \<and> read_column_v1 i n_points (fst (name_and_units title)) (snd (name_and_units title)) f3 s = Inr (f', s'))
     \<or> (ver = 2 \<and> read_column_v2 i n_points (fst (name_and_units title)) (snd (name_and_units title)) f3 s = Inr (f', s'))
     \<or> (3 \<le> ver \<and> read_column_v3 i n_points col_type (fst (name_and_units title)) (snd (name_and_units title)) f3 s = Inr (f', s'))"
  then show ?thesis
  proof (elim disjE conjE)
    assume "read_column_v1 i n_points (fst (name_and_units title)) (snd (name_and_units title)) f3 s = Inr (f', s')"
    then show ?thesis using assms(2) by (rule read_column_v1_later)
  next
    assume "read_column_v2 i n_points (fst (name_and_units title)) (snd (name_and_units title)) f3 s = Inr (f', s')"
    then show ?thesis using assms(2) by (rule read_column_v2_later)
  next
    assume "read_column_v3 i n_points col_type (fst (name_and_units title)) (snd (name_and_units title)) f3 s = Inr (f', s')"
    then show ?thesis using assms(2) by (rule read_column_v3_later)
  qed
qed

lemma read_column_v3_series:
  assumes "read_column_v3 i n ct nm un f s = Inr (f', s')" and "sampling_period s = None"
  shows "i = 0 \<and> ct = Some 9"
proof (cases "ct = Some 9")
  case True
  then show ?thesis
    using assms by (auto simp add: read_column_v3_def ebind_eq_Inr split: if_splits)
next
  case False
  then obtain f1 dt gn ofs where "save_column i n nm un dt gn ofs f1 s = Inr (f', s')"
    using assms(1) by (auto simp add: read_column_v3_def ebind_eq_Inr split: if_splits)
  then show ?thesis using assms(2) save_column_unbound by blast
qed

lemma read_columns_later:
  assumes "read_columns ver i k f s = Inr (f', s')" and "0 < i"
  shows "t_start s' = t_start s \<and> sampling_period s' = sampling_period s
         \<and> map chan_id (sig_channels s') = map chan_id (sig_channels s) @ map int [i..<i + k]
         \<and> length (sigs_memmap s') = length (sigs_memmap s) + k"
  using assms
proof (induction k arbitrary: i f s)
  case 0
  then show ?case by simp
next
  case (Suc k)
  from Suc.prems(1) obtain f1 s1 where
    c: "read_column ver i f s = Inr (f1, s1)" and r: "read_columns ver (Suc i) k f1 s1 = Inr (f', s')"
    by (auto simp add: ebind_eq_Inr)
  from read_column_later [OF c Suc.prems(2)] obtain ch a where
    1: "t_start s1 = t_start s" "sampling_period s1 = sampling_period s"
       "sig_channels s1 = sig_channels s @ [ch]" "chan_id ch = int i" "sigs_memmap s1 = sigs_memmap s @ [a]"
    by blast
  from Suc.IH [OF r] have
    2: "t_start s' = t_start s1" "sampling_period s' = sampling_period s1"
       "map chan_id (sig_channels s') = map chan_id (sig_channels s1) @ map int [Suc i..<Suc i + k]"
       "length (sigs_memmap s') = length (sigs_memmap s1) + k"
    by simp_all
  show ?case
    using 1 2 by (simp add: upt_conv_Cons)
qed

section \<open>Reading does not change the file\<close>


lemma same_file_refl [simp]: "same_file f f"
  by (simp add: same_file_def)

lemma same_file_trans: "same_file f f' \<Longrightarrow> same_file f' f'' \<Longrightarrow> same_file f f''"
  by (simp add: same_file_def)

lemma read_same_file: "read n f = (bs, f') \<Longrightarrow> same_file f f'"
  by (auto simp add: read_def Let_def same_file_def)

lemma read_and_unpack_same_file: "read_and_unpack fmt f = Inr (vs, f') \<Longrightarrow> same_file f f'"
  by (auto simp add: read_and_unpack_def ebind_eq_Inr read_def Let_def same_file_def)

lemma read_string_same_file: "read_string f = Inr (s, f') \<Longrightarrow> same_file f f'"
  by (auto simp add: read_string_def ebind_eq_Inr read_def Let_def same_file_def
      dest!: read_and_unpack_same_file split: if_splits)

lemma read_bool_same_file: "read_bool f = Inr (b, f') \<Longrightarrow> same_file f f'"
  by (auto simp add: read_bool_def ebind_eq_Inr dest!: read_and_unpack_same_file)

lemma read_subfmts_same_file: "read_subfmts fmts acc f = Inr (vs, f') \<Longrightarrow> same_file f f'"
proof (induction fmts arbitrary: acc f)
  case Nil
  then show ?case by simp
next
  case (Cons a fmts)
  then show ?case
    by (auto simp add: ebind_eq_Inr split: if_splits
        dest!: read_string_same_file read_bool_same_file read_and_unpack_same_file
        intro: same_file_trans)
qed

lemma read_f_same_file: "read_f fmt f = Inr (v, f') \<Longrightarrow> same_file f f'"
  by (auto simp add: read_f_def ebind_eq_Inr split: if_splits dest: read_subfmts_same_file)

lemma read_int_same_file: "read_int fmt f = Inr (v, f') \<Longrightarrow> same_file f f'"
  by (auto simp add: read_int_def ebind_eq_Inr dest: read_f_same_file)

lemma read_float_same_file: "read_float fmt f = Inr (v, f') \<Longrightarrow> same_file f f'"
  by (auto simp add: read_float_def ebind_eq_Inr dest: read_f_same_file)

lemma read_float_pair_same_file: "read_float_pair fmt f = Inr (v, f') \<Longrightarrow> same_file f f'"
  by (auto simp add: read_float_pair_def ebind_eq_Inr dest: read_f_same_file)

lemma read_col_type_same_file: "read_col_type ver f = Inr (v, f') \<Longrightarrow> same_file f f'"
  by (auto simp add: read_col_type_def ebind_eq_Inr split: if_splits dest: read_int_same_file)

lemma read_title_same_file: "read_title ver f = Inr (v, f') \<Longrightarrow> same_file f f'"
  by (auto simp add: read_title_def ebind_eq_Inr split: if_splits dest: read_f_same_file)

lemma read_file_header_same_file: "read_file_header f = Inr (v, f') \<Longrightarrow> same_file f f'"
  by (auto simp add: read_file_header_def ebind_eq_Inr split: if_splits prod.splits
      dest!: read_f_same_file read_same_file intro: same_file_trans)

lemma read_file_header_version:
  "read_file_header f = Inr ((hid, ver, ncols), f') \<Longrightarrow> ver = 1 \<or> ver = 2 \<or> 3 \<le> ver"
  by (auto simp add: read_file_header_def ebind_eq_Inr split: if_splits prod.splits)

section \<open>The time column\<close>

lemma read_column_v1_first:
  assumes "read_column_v1 0 n nm un f s = Inr (f', s')"
  shows "\<exists>array. np_memmap (content f) (order_char (byte_order f) # ''f'') (pos f) n = Inr array
           \<and> mm_shape array \<noteq> 0
           \<and> s' = s\<lparr>t_start := Some (NpFloat32 (hd (float32_elems (byte_order f) (content f) array))),
                     sampling_period := Some (NpMedianDiff (float32_elems (byte_order f) (content f) array))\<rparr>"
  using assms
  by (auto simp add: read_column_v1_def ebind_eq_Inr Let_def tell_def split: if_splits)

lemma read_column_v2_first:
  assumes "read_column_v2 0 n nm un f s = Inr (f', s')"
  shows "\<exists>first_value increment. read_float_pair ''ff'' f = Inr ((first_value, increment), f')
           \<and> \<not> py_is_zero increment
           \<and> s' = s\<lparr>t_start := Some first_value, sampling_period := Some increment\<rparr>"
  using assms
  by (auto simp add: read_column_v2_def ebind_eq_Inr truediv_eq_Inr)

lemma read_column_v3_first:
  assumes "read_column_v3 0 n (Some 9) nm un f s = Inr (f', s')"
  shows "\<exists>first_value increment. read_float_pair ''dd'' f = Inr ((first_value, increment), f')
           \<and> \<not> py_is_zero increment
           \<and> s' = s\<lparr>t_start := Some first_value, sampling_period := Some increment\<rparr>"
  using assms
  by (auto simp add: read_column_v3_def ebind_eq_Inr truediv_eq_Inr)

lemma read_column_first:
  assumes "read_column ver 0 f s = Inr (f', s')" and "sampling_period s = None"
  shows "sig_channels s' = sig_channels s \<and> sigs_memmap s' = sigs_memmap s"
  using assms(1)
proof (rule read_column_Inr)
  fix n_points f1 col_type f2 title f3
  assume "(ver = 1 \<and> read_column_v1 0 n_points (fst (name_and_units title)) (snd (name_and_units title)) f3 s = Inr (f', s'))
       \<or> (ver = 2 \<and> read_column_v2 0 n_points (fst (name_and_units title)) (snd (name_and_units title)) f3 s = Inr (f', s'))
       \<or> (3 \<le> ver \<and> read_column_v3 0 n_points col_type (fst (name_and_units title)) (snd (name_and_units title)) f3 s = Inr (f', s'))"
  then show ?thesis
  proof (elim disjE conjE)
    assume "read_column_v1 0 n_points (fst (name_and_units title)) (snd (name_and_units title)) f3 s = Inr (f', s')"
    from read_column_v1_first [OF this] show ?thesis by auto
  next
    assume "read_column_v2 0 n_points (fst (name_and_units title)) (snd (name_and_units title)) f3 s = Inr (f', s')"
    from read_column_v2_first [OF this] show ?thesis by auto
  next
    assume b: "read_column_v3 0 n_points col_type (fst (name_and_units title)) (snd (name_and_units title)) f3 s = Inr (f', s')"
    from read_column_v3_series [OF b assms(2)] have ct: "col_type = Some 9" by simp
    from read_column_v3_first [OF b [unfolded ct]] show ?thesis by auto
  qed
qed

text \<open>The columns of a decoded file.\<close>

lemma decoded_columns:
  assumes "do_the_heavy_lifting file = Inr self"
  shows "\<exists>hid ncols f0 n_points f1 col_type f2 title f3.
           read_file_header \<lparr>byte_order = BigEndian, content = file, pos = 0\<rparr>
             = Inr ((hid, format_ver (info self), ncols), f0)
           \<and> 0 < ncols
           \<and> read_int ''l'' f0 = Inr (n_points, f1)
           \<and> read_col_type (format_ver (info self)) f1 = Inr (col_type, f2)
           \<and> read_title (format_ver (info self)) f2 = Inr (title, f3)
           \<and> (if format_ver (info self) = 1 then
                 \<exists>array. np_memmap file ''>f'' (pos f3) n_points = Inr array \<and> mm_shape array \<noteq> 0
                   \<and> self_t_start self = NpFloat32 (hd (float32_elems BigEndian file array))
                   \<and> self_sampling_period self = NpMedianDiff (float32_elems BigEndian file array)
               else if format_ver (info self) = 2 then
                 \<exists>f4. read_float_pair ''ff'' f3 = Inr ((self_t_start self, self_sampling_period self), f4)
               else
                 col_type = Some 9
                 \<and> (\<exists>f4. read_float_pair ''dd'' f3 = Inr ((self_t_start self, self_sampling_period self), f4)))
           \<and> map chan_id (signal_channels (header self)) = map int [1..<nat ncols]
           \<and> (\<exists>sigs. raw_signals self = [sigs] \<and> length sigs = nat ncols - 1)"
  using assms
proof (rule do_the_heavy_lifting_Inr)
  fix hid ver ncols f0 fe s i3 ann sp t0
  let ?init = "\<lparr>t_start = None, sampling_period = None, sigs_memmap = [], sig_channels = []\<rparr>"
  assume hd: "read_file_header \<lparr>byte_order = BigEndian, content = file, pos = 0\<rparr> = Inr ((hid, ver, ncols), f0)"
    and cols: "read_columns ver 0 (nat ncols) f0 ?init = Inr (fe, s)"
    and sp: "sampling_period s = Some sp" and t0: "t_start s = Some t0"
    and hdr: "header self = \<lparr>nb_block = 1, nb_segment = [1], signal_channels = sig_channels s,
                     event_channels = [(''AxoGraph Tags'', [], ''event''), (''AxoGraph Intervals'', [], ''epoch'')],
                     unit_channels = []\<rparr>"
    and self: "self_sampling_period self = sp" "self_t_start self = t0" "raw_signals self = [sigs_memmap s]"
      "format_ver (info self) = ver"
  have pos: "0 < ncols"
  proof (rule ccontr)
    assume "\<not> 0 < ncols"
    then have "nat ncols = 0" by simp
    with cols sp show False by auto
  qed
  then obtain k where k: "nat ncols = Suc k"
    by (cases "nat ncols") simp_all
  from cols obtain fa s1 where
    c0: "read_column ver 0 f0 ?init = Inr (fa, s1)" and rest: "read_columns ver (Suc 0) k fa s1 = Inr (fe, s)"
    unfolding k by (auto simp add: ebind_eq_Inr)
  from read_column_first [OF c0] have s1: "sig_channels s1 = []" "sigs_memmap s1 = []"
    by simp_all
  from read_columns_later [OF rest] have later:
    "t_start s = t_start s1" "sampling_period s = sampling_period s1"
    "map chan_id (sig_channels s) = map int [1..<Suc k]" "length (sigs_memmap s) = k"
    using s1 by simp_all
  have f0: "content f0 = file" "byte_order f0 = BigEndian"
    using read_file_header_same_file [OF hd] by (simp_all add: same_file_def)
  from c0 obtain n_points f1 col_type f2 title f3 where
    r1: "read_int ''l'' f0 = Inr (n_points, f1)"
    and r2: "read_col_type ver f1 = Inr (col_type, f2)"
    and r3: "read_title ver f2 = Inr (title, f3)"
    and body: "(ver = 1 \<and> read_column_v1 0 n_points (fst (name_and_units title)) (snd (name_and_units title)) f3 ?init = Inr (fa, s1))
       \<or> (ver = 2 \<and> read_column_v2 0 n_points (fst (name_and_units title)) (snd (name_and_units title)) f3 ?init = Inr (fa, s1))
       \<or> (3 \<le> ver \<and> read_column_v3 0 n_points col_type (fst (name_and_units title)) (snd (name_and_units title)) f3 ?init = Inr (fa, s1))"
    by (rule read_column_Inr)
  have f3: "content f3 = file" "byte_order f3 = BigEndian"
    using read_int_same_file [OF r1] read_col_type_same_file [OF r2] read_title_same_file [OF r3] f0
    by (simp_all add: same_file_def)
  have axis: "if ver = 1 then
                 \<exists>array. np_memmap file ''>f'' (pos f3) n_points = Inr array \<and> mm_shape array \<noteq> 0
                   \<and> t0 = NpFloat32 (hd (float32_elems BigEndian file array))
                   \<and> sp = NpMedianDiff (float32_elems BigEndian file array)
               else if ver = 2 then
                 \<exists>f4. read_float_pair ''ff'' f3 = Inr ((t0, sp), f4)
               else
                 col_type = Some 9 \<and> (\<exists>f4. read_float_pair ''dd'' f3 = Inr ((t0, sp), f4))"
    using body
  proof (elim disjE conjE)
    assume v: "ver = 1"
      and "read_column_v1 0 n_points (fst (name_and_units title)) (snd (name_and_units title)) f3 ?init = Inr (fa, s1)"
    from read_column_v1_first [OF this(2)] show ?thesis
      using v sp t0 later f3 by (auto simp add: order_char_def)
  next
    assume v: "ver = 2"
      and "read_column_v2 0 n_points (fst (name_and_units title)) (snd (name_and_units title)) f3 ?init = Inr (fa, s1)"
    from read_column_v2_first [OF this(2)] show ?thesis
      using v sp t0 later by auto
  next
    assume v: "3 \<le> ver"
      and b: "read_column_v3 0 n_points col_type (fst (name_and_units title)) (snd (name_and_units title)) f3 ?init = Inr (fa, s1)"
    from read_column_v3_series [OF b] have ct: "col_type = Some 9" by simp
    from read_column_v3_first [OF b [unfolded ct]] show ?thesis
      using v ct sp t0 later by auto
  qed
  show ?thesis
    using hd pos r1 r2 r3 axis later(3,4) hdr self k
    by (auto simp del: upt_Suc)
qed

text \<open>
  C1. When a file of any format version is decoded, it has at least one column, and
  column 0 was read as the time axis. In version 1 it is an array of floats, not empty:
  the start time is its first element and the sampling period the median of its
  differences. In version 2 the start time and the sampling period are the two floats
  (first value, increment) after the title. From version 3 on the column has type 9, and
  they are the two doubles after the title. Column 0 adds nothing to the channel table
  or to the sample arrays: the ids of the channels in the table are the column indexes
  1, ..., n_cols - 1 in order, and there are as many sample arrays.
\<close>

theorem column_0_is_the_time_axis:
  assumes "do_the_heavy_lifting file = Inr self"
  shows "\<exists>hid ncols f0 n_points f1 col_type f2 title f3.
           read_file_header \<lparr>byte_order = BigEndian, content = file, pos = 0\<rparr>
             = Inr ((hid, format_ver (info self), ncols), f0)
           \<and> 0 < ncols
           \<and> read_int ''l'' f0 = Inr (n_points, f1)
           \<and> read_col_type (format_ver (info self)) f1 = Inr (col_type, f2)
           \<and> read_title (format_ver (info self)) f2 = Inr (title, f3)
           \<and> (if format_ver (info self) = 1 then
                 \<exists>array. np_memmap file ''>f'' (pos f3) n_points = Inr array \<and> mm_shape array \<noteq> 0
                   \<and> self_t_start self = NpFloat32 (hd (float32_elems BigEndian file array))
                   \<and> self_sampling_period self = NpMedianDiff (float32_elems BigEndian file array)
               else if format_ver (info self) = 2 then
                 \<exists>f4. read_float_pair ''ff'' f3 = Inr ((self_t_start self, self_sampling_period self), f4)
               else
                 col_type = Some 9
                 \<and> (\<exists>f4. read_float_pair ''dd'' f3 = Inr ((self_t_start self, self_sampling_period self), f4)))
           \<and> map chan_id (signal_channels (header self)) = map int [1..<nat ncols]
           \<and> (\<exists>sigs. raw_signals self = [sigs] \<and> length sigs = nat ncols - 1)"
  using assms by (rule decoded_columns)

section \<open>The heuristic\<close>

lemma length_unique: "length (unique xs) = card (set xs)"
  by (simp add: unique_def length_remdups_card_conv)

lemma unique_singleton:
  assumes "length (unique xs) = 1"
  shows "\<exists>x. set xs = {x} \<and> unique xs = [x]"
proof -
  from assms have "card (set xs) = 1" by (simp add: length_unique)
  then obtain x where x: "set xs = {x}" by (auto simp add: card_1_singleton_iff)
  have "set (unique xs) = {x}" by (simp add: unique_def x)
  with assms have "unique xs = [x]"
    by (cases "unique xs") auto
  with x show ?thesis by blast
qed

lemma unique_two:
  assumes "a \<in> set xs" and "b \<in> set xs" and "a \<noteq> b"
  shows "length (unique xs) \<noteq> 1"
proof
  assume "length (unique xs) = 1"
  then obtain x where "set xs = {x}" using unique_singleton by blast
  with assms show False by auto
qed

lemma safe_to_treat_as_episodic_uneven:
  assumes "v3 (info self) = Some i3"
    and "group_cols (group_header_info_list i3) (trace_header_info_list i3) = Inr m"
    and "(g1, c1) \<in> set m" and "(g2, c2) \<in> set m" and "length c1 \<noteq> length c2"
  shows "safe_to_treat_as_episodic row_eq self = Inr False"
proof -
  have "int (length c1) \<in> set (map snd (map (\<lambda>(k, v). (k, int (length v))) m))"
    using assms(3) by force
  moreover have "int (length c2) \<in> set (map snd (map (\<lambda>(k, v). (k, int (length v))) m))"
    using assms(4) by force
  ultimately have "length (unique (map snd (map (\<lambda>(k, v). (k, int (length v))) m))) \<noteq> 1"
    using assms(5) by (intro unique_two [of "int (length c1)" _ "int (length c2)"]) simp_all
  then show ?thesis
    using assms(1,2) by (simp add: safe_to_treat_as_episodic_def Let_def)
qed

lemma np_take_nonempty: "np_take xs js = Inr rows \<Longrightarrow> js \<noteq> [] \<Longrightarrow> xs \<noteq> []"
  by (cases js) (auto split: if_splits)

lemma rows_of_group_Inr: "rows_of_group table c = Inr rows \<Longrightarrow> c \<noteq> [] \<and> table \<noteq> []"
  by (auto simp add: rows_of_group_def split: if_splits dest: np_take_nonempty)

lemma groups_uniform_Inr:
  "groups_uniform row_eq table m = Inr bs \<Longrightarrow> (g, c) \<in> set m \<Longrightarrow> c \<noteq> [] \<and> table \<noteq> []"
proof (induction m arbitrary: bs)
  case Nil
  then show ?case by simp
next
  case (Cons a m)
  obtain g' c' where a: "a = (g', c')" by (cases a)
  from Cons.prems(1) obtain rows r where
    1: "rows_of_group table c' = Inr rows" and 2: "groups_uniform row_eq table m = Inr r"
    by (auto simp add: a ebind_eq_Inr)
  show ?case
  proof (cases "(g, c) = a")
    case True
    then show ?thesis using rows_of_group_Inr [OF 1] a by simp
  next
    case False
    then have "(g, c) \<in> set m" using Cons.prems(2) by simp
    then show ?thesis using Cons.IH [OF 2] by simp
  qed
qed

text \<open>What acceptance by the heuristic implies.\<close>

lemma safe_to_treat_as_episodic_True:
  assumes "safe_to_treat_as_episodic row_eq self = Inr True"
  obtains i3 where "v3 (info self) = Some i3" "0 < n_episodes i3" "signal_channels (header self) \<noteq> []"
proof -
  from assms have ver: "\<not> format_ver (info self) < 3"
    by (auto simp add: safe_to_treat_as_episodic_def)
  with assms obtain i3 where i3: "v3 (info self) = Some i3"
    by (cases "v3 (info self)") (auto simp add: safe_to_treat_as_episodic_def)
  from assms ver i3 obtain m where m: "group_cols (group_header_info_list i3) (trace_header_info_list i3) = Inr m"
    by (auto simp add: safe_to_treat_as_episodic_def ebind_eq_Inr)
  let ?counts = "map snd (map (\<lambda>(k, v). (k, int (length v))) m)"
  from assms ver i3 m have len1: "length (unique ?counts) = 1"
    by (auto simp add: safe_to_treat_as_episodic_def Let_def split: if_splits)
  from assms ver i3 m len1 have n: "hd (unique ?counts) = n_episodes i3"
    by (auto simp add: safe_to_treat_as_episodic_def Let_def split: if_splits)
  from assms ver i3 m len1 n obtain bs where
    bs: "groups_uniform row_eq (map drop_id (signal_channels (header self))) m = Inr bs"
    by (auto simp add: safe_to_treat_as_episodic_def Let_def ebind_eq_Inr split: if_splits)
  from unique_singleton [OF len1] obtain x where x: "set ?counts = {x}" "unique ?counts = [x]"
    by blast
  then have "?counts \<noteq> []" by auto
  then obtain g c where gc: "(g, c) \<in> set m"
    by (cases m) auto
  then have "int (length c) \<in> set ?counts" by force
  with x n have "int (length c) = n_episodes i3" by simp
  moreover from groups_uniform_Inr [OF bs gc] have "c \<noteq> []" "signal_channels (header self) \<noteq> []"
    by simp_all
  ultimately have "0 < n_episodes i3" "signal_channels (header self) \<noteq> []"
    by (cases c; simp)+
  with i3 show thesis by (rule that)
qed

section \<open>The conversion\<close>

lemma concat_chunks:
  "concat (map (\<lambda>j. take k (drop (j * k) xs)) [0..<n]) = take (n * k) xs"
proof (induction n)
  case 0
  then show ?case by simp
next
  case (Suc n)
  have "take (n * k) xs @ take k (drop (n * k) xs) = take (n * k + k) xs"
    by (simp add: take_add)
  with Suc show ?case by (simp add: add.commute)
qed

lemma arange_count:
  assumes "0 < k"
  shows "(n * k + k - 1) div k = (n::nat)"
  using assms by (intro div_nat_eqI) (simp_all add: algebra_simps)

lemma convert_to_multi_segment_eq:
  assumes i3: "v3 (info self) = Some i3"
    and n: "0 < n_episodes i3"
    and sigs: "raw_signals self = [sigs]"
    and len: "length sigs = length (signal_channels (header self))"
    and ne: "signal_channels (header self) \<noteq> []"
  shows "convert_to_multi_segment self =
           (if int (length (signal_channels (header self))) mod n_episodes i3 = 0 then
              Inr (self\<lparr>header := (header self)\<lparr>nb_segment := [n_episodes i3],
                          signal_channels := take (length sigs div nat (n_episodes i3)) (signal_channels (header self))\<rparr>,
                        raw_signals := map (\<lambda>j. take (length sigs div nat (n_episodes i3))
                                                 (drop (j * (length sigs div nat (n_episodes i3))) sigs))
                                           [0..<nat (n_episodes i3)]\<rparr>)
            else Inl ValueError)"
proof (cases "int (length (signal_channels (header self))) mod n_episodes i3 = 0")
  case False
  then show ?thesis
    using i3 by (simp add: convert_to_multi_segment_def reshape_first_def)
next
  case True
  define L where "L = length (signal_channels (header self))"
  define ne where "ne = nat (n_episodes i3)"
  define k where "k = L div ne"
  have ne0: "0 < ne" using n by (simp add: ne_def)
  have "int L mod int ne = 0" using True n by (simp add: L_def ne_def)
  then have "int (L mod ne) = 0" by (simp add: zmod_int)
  then have "L mod ne = 0" by simp
  then have Lk: "L = ne * k"
    using mult_div_mod_eq [of ne L] by (simp add: k_def)
  have L0: "0 < L" using ne by (simp add: L_def)
  then have k0: "0 < k" using Lk by (cases k) simp_all
  have klen: "length (take k (signal_channels (header self))) = k"
    using Lk ne0 by (simp add: L_def [symmetric])
  have cnt: "(L + k - 1) div k = ne"
    using arange_count [OF k0, of ne] Lk by (simp add: mult.commute)
  have "[0..<(L + k - 1) div k] = [0..<ne]" by (simp only: cnt)
  then show ?thesis
    using True i3 n sigs len k0 klen ne
    by (simp add: convert_to_multi_segment_def reshape_first_def np_arange_def Let_def
        L_def [symmetric] ne_def [symmetric] k_def [symmetric] comp_def)
qed

section \<open>Episodic files\<close>


lemma decoded_layout:
  assumes "do_the_heavy_lifting file = Inr self"
  shows "nb_segment (header self) = [1]
         \<and> (\<exists>sigs. raw_signals self = [sigs] \<and> length sigs = length (signal_channels (header self)))
         \<and> map chan_id (signal_channels (header self)) = map int [1..<Suc (length (signal_channels (header self)))]"
proof -
  from decoded_columns [OF assms] obtain ncols sigs where
    1: "map chan_id (signal_channels (header self)) = map int [1..<nat ncols]"
    and 2: "raw_signals self = [sigs]" "length sigs = nat ncols - 1" and 3: "0 < ncols"
    by blast
  from 1 have "length (signal_channels (header self)) = nat ncols - 1"
    by (metis length_map length_upt)
  moreover from this 3 have "Suc (length (signal_channels (header self))) = nat ncols"
    by simp
  moreover have "nb_segment (header self) = [1]"
    using assms by (rule do_the_heavy_lifting_Inr) simp
  ultimately show ?thesis using 1 2 by simp
qed

text \<open>
  C4. Take a decoded file in which two groups hold different numbers of traces (in the
  map from group ids to column indexes that the heuristic builds, two entries differ in
  length). Then the heuristic answers False, at its second check: the later checks are
  not evaluated, so the answer does not depend on how table rows compare, and an index
  error that the fourth check would raise does not arise. \<open>parse_header\<close> returns what
  \<open>_do_the_heavy_lifting\<close> produced: one segment, holding one sample array for each
  channel, the channels being the columns 1, 2, ... in column order.
\<close>

theorem uneven_groups_stay_single_segment:
  assumes "do_the_heavy_lifting file = Inr self"
    and "v3 (info self) = Some i3"
    and "group_cols (group_header_info_list i3) (trace_header_info_list i3) = Inr m"
    and "(g1, c1) \<in> set m" and "(g2, c2) \<in> set m" and "length c1 \<noteq> length c2"
  shows "safe_to_treat_as_episodic row_eq self = Inr False
         \<and> parse_header row_eq force_single_segment file = Inr self
         \<and> nb_segment (header self) = [1]
         \<and> (\<exists>sigs. raw_signals self = [sigs] \<and> length sigs = length (signal_channels (header self)))
         \<and> map chan_id (signal_channels (header self)) = map int [1..<Suc (length (signal_channels (header self)))]"
proof -
  have "safe_to_treat_as_episodic row_eq self = Inr False"
    using assms(2-6) by (rule safe_to_treat_as_episodic_uneven)
  then show ?thesis
    using assms(1) decoded_layout [OF assms(1)] by (simp add: parse_header_def)
qed

text \<open>
  C3, as the code has it. Suppose the heuristic accepts a decoded file with \<open>L\<close>
  signal channels. Then \<open>n_episodes\<close> is at least 1 and \<open>L\<close> is at least 1. If
  \<open>n_episodes\<close> does not divide \<open>L\<close>, the conversion raises ValueError. If it does,
  then after the conversion the segment count is \<open>n_episodes\<close>, the channel table is cut
  down to its first \<open>L / n_episodes\<close> rows, and the flat list of sample arrays is split
  into \<open>n_episodes\<close> runs of \<open>L / n_episodes\<close> consecutive arrays, one run for each
  segment; the runs put together are the flat list again, so the arrays of all segments
  number \<open>L\<close>. Nothing relates the rows that are kept to the groups: they are the
  first rows of the table.
\<close>

theorem episodic_conversion:
  assumes "do_the_heavy_lifting file = Inr self"
    and "safe_to_treat_as_episodic row_eq self = Inr True"
  shows "\<exists>i3 sigs. v3 (info self) = Some i3 \<and> 0 < n_episodes i3
           \<and> raw_signals self = [sigs] \<and> length sigs = length (signal_channels (header self))
           \<and> (if int (length sigs) mod n_episodes i3 = 0 then
                 \<exists>self'. parse_header row_eq False file = Inr self'
                   \<and> nb_segment (header self') = [n_episodes i3]
                   \<and> signal_channels (header self')
                       = take (length sigs div nat (n_episodes i3)) (signal_channels (header self))
                   \<and> raw_signals self'
                       = map (\<lambda>j. take (length sigs div nat (n_episodes i3))
                                    (drop (j * (length sigs div nat (n_episodes i3))) sigs))
                             [0..<nat (n_episodes i3)]
                   \<and> length (raw_signals self') = nat (n_episodes i3)
                   \<and> list_all (\<lambda>seg. length seg = length sigs div nat (n_episodes i3)) (raw_signals self')
                   \<and> concat (raw_signals self') = sigs
                   \<and> sum_list (map length (raw_signals self')) = length sigs
               else parse_header row_eq False file = Inl ValueError)"
proof -
  from assms(2) obtain i3 where
    i3: "v3 (info self) = Some i3" and n: "0 < n_episodes i3" and ne: "signal_channels (header self) \<noteq> []"
    by (rule safe_to_treat_as_episodic_True)
  from decoded_layout [OF assms(1)] obtain sigs where
    sigs: "raw_signals self = [sigs]" and len: "length sigs = length (signal_channels (header self))"
    by blast
  define ne where "ne = nat (n_episodes i3)"
  define k where "k = length sigs div ne"
  have ne0: "0 < ne" using n by (simp add: ne_def)
  have ph: "parse_header row_eq False file = convert_to_multi_segment self"
    using assms by (simp add: parse_header_def)
  have conv: "convert_to_multi_segment self =
           (if int (length sigs) mod n_episodes i3 = 0 then
              Inr (self\<lparr>header := (header self)\<lparr>nb_segment := [n_episodes i3],
                          signal_channels := take k (signal_channels (header self))\<rparr>,
                        raw_signals := map (\<lambda>j. take k (drop (j * k) sigs)) [0..<ne]\<rparr>)
            else Inl ValueError)"
    using convert_to_multi_segment_eq [OF i3 n sigs len ne] by (simp add: len k_def ne_def)
  have chunks: "int (length sigs) mod n_episodes i3 = 0 \<Longrightarrow>
      list_all (\<lambda>seg. length seg = k) (map (\<lambda>j. take k (drop (j * k) sigs)) [0..<ne])
      \<and> concat (map (\<lambda>j. take k (drop (j * k) sigs)) [0..<ne]) = sigs"
  proof -
    assume "int (length sigs) mod n_episodes i3 = 0"
    then have "int (length sigs mod ne) = 0"
      using n by (simp add: zmod_int ne_def)
    then have "length sigs mod ne = 0" by simp
    then have L: "length sigs = ne * k"
      using mult_div_mod_eq [of ne "length sigs"] by (simp add: k_def)
    have "min (length sigs - j * k) k = k" if "j < ne" for j
    proof -
      from that have "Suc j \<le> ne" by simp
      then have "Suc j * k \<le> ne * k" by (rule mult_le_mono1)
      then show ?thesis using L by simp
    qed
    then have "list_all (\<lambda>seg. length seg = k) (map (\<lambda>j. take k (drop (j * k) sigs)) [0..<ne])"
      by (simp add: list_all_iff)
    moreover have "concat (map (\<lambda>j. take k (drop (j * k) sigs)) [0..<ne]) = sigs"
      using L by (simp add: concat_chunks)
    ultimately show ?thesis by simp
  qed
  have sum: "sum_list (map length xss) = length (concat xss)" for xss :: "memmap list list"
    by (simp add: length_concat)
  show ?thesis
  proof (intro exI conjI)
    show "v3 (info self) = Some i3" by (rule i3)
    show "0 < n_episodes i3" by (rule n)
    show "raw_signals self = [sigs]" by (rule sigs)
    show "length sigs = length (signal_channels (header self))" by (rule len)
    show "if int (length sigs) mod n_episodes i3 = 0 then
                 \<exists>self'. parse_header row_eq False file = Inr self'
                   \<and> nb_segment (header self') = [n_episodes i3]
                   \<and> signal_channels (header self')
                       = take (length sigs div nat (n_episodes i3)) (signal_channels (header self))
                   \<and> raw_signals self'
                       = map (\<lambda>j. take (length sigs div nat (n_episodes i3))
                                    (drop (j * (length sigs div nat (n_episodes i3))) sigs))
                             [0..<nat (n_episodes i3)]
                   \<and> length (raw_signals self') = nat (n_episodes i3)
                   \<and> list_all (\<lambda>seg. length seg = length sigs div nat (n_episodes i3)) (raw_signals self')
                   \<and> concat (raw_signals self') = sigs
                   \<and> sum_list (map length (raw_signals self')) = length sigs
               else parse_header row_eq False file = Inl ValueError"
      using chunks by (simp add: ph conv sum k_def [symmetric] ne_def [symmetric])
  qed
qed

section \<open>Gain and offset\<close>

lemma rescale_sample_identity: "rescale_sample x (PyInt 1) (PyInt 0) = Some x"
  by (simp add: rescale_sample_def)

lemma save_column_gain:
  assumes "save_column i n nm un dt gn ofs f s = Inr (f', s')"
  shows "\<exists>c. sig_channels s' = sig_channels s @ [c] \<and> gain c = gn \<and> offset c = ofs"
  using assms by (rule save_column_Inr) simp

text \<open>
  C7. Take a column that the loop body decodes, with its point count, type and title
  read. If it is a column after the first of a version-1 file, or a column of type 4, 5,
  6 or 7 of a file of version 3 or later, then one channel is appended for it, with gain
  1 and offset 0, so that rescaling a sample of it gives the sample back. A column after
  the first of a version-2 file gets the gain that is read from the file after its
  title, and offset 0; a column of type 10 gets the gain and the offset that are read
  from the file. Any other column that is decoded is the time column and appends no
  channel.
\<close>

theorem unscaled_columns_have_identity_gain:
  assumes "read_column ver i f s = Inr (f', s')"
    and "read_int ''l'' f = Inr (n_points, f1)"
    and "read_col_type ver f1 = Inr (col_type, f2)"
    and "read_title ver f2 = Inr (title, f3)"
  shows "if ver = 1 \<and> 0 < i \<or> 3 \<le> ver \<and> col_type \<in> {Some 4, Some 5, Some 6, Some 7} then
           \<exists>c. sig_channels s' = sig_channels s @ [c] \<and> gain c = PyInt 1 \<and> offset c = PyInt 0
             \<and> (\<forall>x::int. rescale_sample x (gain c) (offset c) = Some x)
         else if ver = 2 \<and> 0 < i then
           \<exists>c g f4. read_float ''f'' f3 = Inr (g, f4)
             \<and> sig_channels s' = sig_channels s @ [c] \<and> gain c = g \<and> offset c = PyInt 0
         else if 3 \<le> ver \<and> col_type = Some 10 then
           \<exists>c g ofs f4. read_float_pair ''dd'' f3 = Inr ((g, ofs), f4)
             \<and> sig_channels s' = sig_channels s @ [c] \<and> gain c = g \<and> offset c = ofs
         else sig_channels s' = sig_channels s"
proof -
  let ?nm = "fst (name_and_units title)" and ?un = "snd (name_and_units title)"
  have body: "(ver = 1 \<and> read_column_v1 i n_points ?nm ?un f3 s = Inr (f', s'))
     \<or> (ver = 2 \<and> read_column_v2 i n_points ?nm ?un f3 s = Inr (f', s'))
     \<or> (3 \<le> ver \<and> read_column_v3 i n_points col_type ?nm ?un f3 s = Inr (f', s'))"
    using assms unfolding read_column_def by (simp add: case_prod_beta split: if_splits)
  then show ?thesis
  proof (elim disjE conjE)
    assume v: "ver = 1" and b: "read_column_v1 i n_points ?nm ?un f3 s = Inr (f', s')"
    show ?thesis
    proof (cases "i = 0")
      case True
      with read_column_v1_first [OF b [unfolded True]] v show ?thesis by auto
    next
      case False
      with b have "save_column i n_points ?nm ?un ''f'' (PyInt 1) (PyInt 0) f3 s = Inr (f', s')"
        by (simp add: read_column_v1_def)
      from save_column_gain [OF this] show ?thesis
        using v False by (auto simp add: rescale_sample_identity)
    qed
  next
    assume v: "ver = 2" and b: "read_column_v2 i n_points ?nm ?un f3 s = Inr (f', s')"
    show ?thesis
    proof (cases "i = 0")
      case True
      with read_column_v2_first [OF b [unfolded True]] v show ?thesis by auto
    next
      case False
      with b obtain g f4 where g: "read_float ''f'' f3 = Inr (g, f4)"
        and "save_column i n_points ?nm ?un ''h'' g (PyInt 0) f4 s = Inr (f', s')"
        by (auto simp add: read_column_v2_def ebind_eq_Inr)
      from save_column_gain [OF this(2)] show ?thesis
        using v False g by auto
    qed
  next
    assume v: "3 \<le> ver" and b: "read_column_v3 i n_points col_type ?nm ?un f3 s = Inr (f', s')"
    consider (series) "col_type = Some 9" | (scaled) "col_type = Some 10"
      | (plain) "col_type \<in> {Some 4, Some 5, Some 6, Some 7}"
      using b by (auto simp add: read_column_v3_def split: if_splits)
    then show ?thesis
    proof cases
      case series
      with b have "i = 0"
        by (auto simp add: read_column_v3_def ebind_eq_Inr split: if_splits)
      with read_column_v3_first [of n_points ?nm ?un f3 s f' s'] b series v show ?thesis by auto
    next
      case scaled
      with b obtain g ofs f4 where g: "read_float_pair ''dd'' f3 = Inr ((g, ofs), f4)"
        and "save_column i n_points ?nm ?un ''h'' g ofs f4 s = Inr (f', s')"
        by (auto simp add: read_column_v3_def ebind_eq_Inr)
      from save_column_gain [OF this(2)] show ?thesis
        using v scaled g by auto
    next
      case plain
      with b obtain dt where "save_column i n_points ?nm ?un dt (PyInt 1) (PyInt 0) f3 s = Inr (f', s')"
        by (auto simp add: read_column_v3_def)
      from save_column_gain [OF this] show ?thesis
        using v plain by (auto simp add: rescale_sample_identity)
    qed
  qed
qed

text \<open>
  C9, as the code has it. A column with 0 points that is kept as a channel is saved
  without error when the time column has been read before it: its sample array is empty
  and starts at the current position, which does not move. A series column (the time
  column of version 2, a column of type 9) is decoded in the same way whatever its point
  count is. The time column of a version-1 file is different: its first element is read,
  and with 0 points that is an IndexError.
\<close>

theorem empty_column:
  assumes "sampling_period s = Some sp" and "\<not> py_is_zero sp" and "pos f \<le> length (content f)"
  shows "save_column i 0 nm un dt gn ofs f s =
           Inr (f, s\<lparr>sigs_memmap := sigs_memmap s @
                        [\<lparr>mm_dtype = order_char (byte_order f) # dt, mm_offset = pos f, mm_shape = 0\<rparr>],
                      sig_channels := sig_channels s @
                        [\<lparr>name = nm, chan_id = int i, sampling_rate = Quot (PyInt 1) sp,
                          dtype = order_char (byte_order f) # dt, units = un, gain = gn, offset = ofs,
                          group_id = 0\<rparr>]\<rparr>)
         \<and> read_column_v2 0 n nm un f s = read_column_v2 0 0 nm un f s
         \<and> read_column_v3 i n (Some 9) nm un f s = read_column_v3 i 0 (Some 9) nm un f s
         \<and> read_column_v1 0 0 nm un f s = Inl IndexError"
  using assms
  by (simp add: save_column_def np_memmap_def tell_def seek_cur_def nbytes_def truediv_def
      read_column_v1_def read_column_v2_def read_column_v3_def Let_def)
section \<open>Evaluating the decoder on a given file\<close>

text \<open>
  The lemmas of this section let the simplifier run the decoder on the bytes of a file:
  the reader is kept as \<open>reader_at\<close>, loops are unrolled on numerals, and each format
  string that the decoder uses has its own rule.
\<close>

lemmas eval_congs = ebind_cong_weak prod.case_cong_weak sum.case_cong_weak option.case_cong_weak
  list.case_cong_weak val.case_cong_weak

lemma reader_at_start: "\<lparr>byte_order = e, content = file, pos = 0\<rparr> = reader_at e [] file"
  by (simp add: reader_at_def)

lemma read_reader_at:
  "read n (reader_at e behind ahead) = (take n ahead, reader_at e (rev (take n ahead) @ behind) (drop n ahead))"
  by (simp add: read_def reader_at_def Let_def min_def)

lemma read_all_reader_at:
  "read_all (reader_at e behind ahead) = (ahead, reader_at e (rev ahead @ behind) [])"
  by (simp add: read_all_def reader_at_def Let_def)

lemma tell_reader_at: "tell (reader_at e behind ahead) = length behind"
  by (simp add: tell_def reader_at_def)

lemma seek_cur_reader_at:
  "length (take n ahead) = n \<Longrightarrow>
   seek_cur n (reader_at e behind ahead) = reader_at e (rev (take n ahead) @ behind) (drop n ahead)"
  by (simp add: seek_cur_def reader_at_def)

lemma fields_reader_at:
  "byte_order (reader_at e behind ahead) = e"
  "content (reader_at e behind ahead) = rev behind @ ahead"
  "pos (reader_at e behind ahead) = length behind"
  by (simp_all add: reader_at_def)

lemmas reader_at_eval = read_reader_at read_all_reader_at tell_reader_at seek_cur_reader_at fields_reader_at

lemma read_columns_numeral:
  "read_columns ver i (numeral k) f s =
     ebind (read_column ver i f s) (\<lambda>(f', s'). read_columns ver (Suc i) (pred_numeral k) f' s')"
  by (simp add: numeral_eq_Suc)

lemma read_traces_numeral:
  "read_traces ver i (numeral k) ths gids f =
     ebind (read_trace ver f) (\<lambda>(trace_header_info, f').
       ebind (ebind (dict_get trace_header_info ''group_id_for_this_trace'') as_int) (\<lambda>g.
         read_traces ver (Suc i) (pred_numeral k)
           (dict_set ths (int i + 1) trace_header_info) (gids @ [g]) f'))"
  by (simp add: numeral_eq_Suc)

lemma read_episode_bools_numeral:
  "read_episode_bools i (numeral k) acc f =
     ebind (read_bool f) (\<lambda>(episode_bool, f').
       read_episode_bools (Suc i) (pred_numeral k) (if episode_bool then acc @ [int i + 1] else acc) f')"
  by (simp add: numeral_eq_Suc)

lemma read_ints_numeral:
  "read_ints (numeral k) acc f = ebind (read_int ''l'' f) (\<lambda>(x, f'). read_ints (pred_numeral k) (acc @ [x]) f')"
  by (simp add: numeral_eq_Suc)

lemma read_strings_numeral:
  "read_strings (numeral k) acc f =
     ebind (read_f ''S'' f) (\<lambda>(v, f'). ebind (as_str v) (\<lambda>s. read_strings (pred_numeral k) (acc @ [s]) f'))"
  by (simp add: numeral_eq_Suc)

lemma read_epoch_list_numeral:
  "read_epoch_list (numeral k) acc f =
     ebind (read_description EpochInfoDescription [] f) (\<lambda>(epoch_info, f').
       read_epoch_list (pred_numeral k) (acc @ [epoch_info]) f')"
  by (simp add: numeral_eq_Suc)

lemma unpack_reps_numeral:
  "unpack_reps e c k (numeral n) bs = unpack_scalar e c (take k bs) # unpack_reps e c k (pred_numeral n) (drop k bs)"
  by (simp add: numeral_eq_Suc)

lemmas loop_numerals = read_columns_numeral read_traces_numeral read_episode_bools_numeral read_ints_numeral
  read_strings_numeral read_epoch_list_numeral unpack_reps_numeral


lemma read_and_unpack_reader_at:
  assumes "parse_fmt None fmt = Some its"
  shows "read_and_unpack fmt (reader_at e behind ahead) =
           (if length (take (items_size its) ahead) = items_size its
            then Inr (unpack_items e its (take (items_size its) ahead),
                      reader_at e (rev (take (items_size its) ahead) @ behind) (drop (items_size its) ahead))
            else Inl StructError)"
  using assms by (simp add: read_and_unpack_def calcsize_def read_reader_at unpack_def fields_reader_at)

lemma read_f_plain:
  assumes "parse_fmt None fmt = Some its" and "items_size its = n" and "split_specials [] fmt = [fmt]"
    and "fmt \<noteq> ''S''" and "fmt \<noteq> ''Z''"
  shows "read_f fmt (reader_at e behind ahead) =
           (if length (take n ahead) = n
            then Inr (if length (unpack_items e its (take n ahead)) = 1
                      then hd (unpack_items e its (take n ahead))
                      else VTuple (unpack_items e its (take n ahead)),
                      reader_at e (rev (take n ahead) @ behind) (drop n ahead))
            else Inl StructError)"
  using assms by (auto simp add: read_f_def read_and_unpack_reader_at)

lemma read_string_reader_at:
  "read_string (reader_at e behind ahead) =
     (if length (take 4 ahead) = 4 then
        (if to_signed 32 (bytes_nat e (take 4 ahead)) > 0 then
           ebind (decode_utf16 e (take (nat (to_signed 32 (bytes_nat e (take 4 ahead)))) (drop 4 ahead))) (\<lambda>s.
             Inr (s, reader_at e (rev (take (nat (to_signed 32 (bytes_nat e (take 4 ahead)))) (drop 4 ahead)) @ rev (take 4 ahead) @ behind)
                       (drop (nat (to_signed 32 (bytes_nat e (take 4 ahead)))) (drop 4 ahead))))
         else Inr ([], reader_at e (rev (take 4 ahead) @ behind) (drop 4 ahead)))
      else Inl StructError)"
  by (simp add: read_string_def read_and_unpack_reader_at [where its = "[(1, CHR ''l'')]"] is_digit_def is_cspace_def
       item_size_def items_size_def unpack_scalar_def as_int_def read_reader_at fields_reader_at)

lemma read_bool_reader_at:
  "read_bool (reader_at e behind ahead) =
     (if length (take 4 ahead) = 4
      then Inr (to_signed 32 (bytes_nat e (take 4 ahead)) \<noteq> 0, reader_at e (rev (take 4 ahead) @ behind) (drop 4 ahead))
      else Inl StructError)"
  by (simp add: read_bool_def read_and_unpack_reader_at [where its = "[(1, CHR ''l'')]"] is_digit_def is_cspace_def
       item_size_def items_size_def unpack_scalar_def as_int_def)

lemma read_and_unpack_empty: "read_and_unpack [] f = Inr ([], f)"
  by (simp add: read_and_unpack_def calcsize_def items_size_def read_def unpack_def)

lemma read_f_S:
  "read_f ''S'' (reader_at e behind ahead) =
     ebind (read_string (reader_at e behind ahead)) (\<lambda>(s, f'). Inr (VStr s, f'))"
  by (simp add: read_f_def read_and_unpack_empty ebind_def split: sum.splits)

lemma read_f_Z:
  "read_f ''Z'' (reader_at e behind ahead) =
     ebind (read_bool (reader_at e behind ahead)) (\<lambda>(b, f'). Inr (VBool b, f'))"
  by (simp add: read_f_def read_and_unpack_empty ebind_def split: sum.splits)

lemma read_f_l1:
  "read_f ''l'' (reader_at e behind ahead) =
     (if length (take 4 ahead) = 4
      then Inr (if length (unpack_items e [(1, CHR ''l'')] (take 4 ahead)) = 1
                then hd (unpack_items e [(1, CHR ''l'')] (take 4 ahead))
                else VTuple (unpack_items e [(1, CHR ''l'')] (take 4 ahead)),
                reader_at e (rev (take 4 ahead) @ behind) (drop 4 ahead))
      else Inl StructError)"
  by (rule read_f_plain) (simp_all add: is_digit_def is_cspace_def item_size_def items_size_def)

lemma read_f_d:
  "read_f ''d'' (reader_at e behind ahead) =
     (if length (take 8 ahead) = 8
      then Inr (if length (unpack_items e [(1, CHR ''d'')] (take 8 ahead)) = 1
                then hd (unpack_items e [(1, CHR ''d'')] (take 8 ahead))
                else VTuple (unpack_items e [(1, CHR ''d'')] (take 8 ahead)),
                reader_at e (rev (take 8 ahead) @ behind) (drop 8 ahead))
      else Inl StructError)"
  by (rule read_f_plain) (simp_all add: is_digit_def is_cspace_def item_size_def items_size_def)

lemma read_f_h:
  "read_f ''h'' (reader_at e behind ahead) =
     (if length (take 2 ahead) = 2
      then Inr (if length (unpack_items e [(1, CHR ''h'')] (take 2 ahead)) = 1
                then hd (unpack_items e [(1, CHR ''h'')] (take 2 ahead))
                else VTuple (unpack_items e [(1, CHR ''h'')] (take 2 ahead)),
                reader_at e (rev (take 2 ahead) @ behind) (drop 2 ahead))
      else Inl StructError)"
  by (rule read_f_plain) (simp_all add: is_digit_def is_cspace_def item_size_def items_size_def)

lemma read_f_f:
  "read_f ''f'' (reader_at e behind ahead) =
     (if length (take 4 ahead) = 4
      then Inr (if length (unpack_items e [(1, CHR ''f'')] (take 4 ahead)) = 1
                then hd (unpack_items e [(1, CHR ''f'')] (take 4 ahead))
                else VTuple (unpack_items e [(1, CHR ''f'')] (take 4 ahead)),
                reader_at e (rev (take 4 ahead) @ behind) (drop 4 ahead))
      else Inl StructError)"
  by (rule read_f_plain) (simp_all add: is_digit_def is_cspace_def item_size_def items_size_def)

lemma read_f_ff:
  "read_f ''ff'' (reader_at e behind ahead) =
     (if length (take 8 ahead) = 8
      then Inr (if length (unpack_items e [(1, CHR ''f''), (1, CHR ''f'')] (take 8 ahead)) = 1
                then hd (unpack_items e [(1, CHR ''f''), (1, CHR ''f'')] (take 8 ahead))
                else VTuple (unpack_items e [(1, CHR ''f''), (1, CHR ''f'')] (take 8 ahead)),
                reader_at e (rev (take 8 ahead) @ behind) (drop 8 ahead))
      else Inl StructError)"
  by (rule read_f_plain) (simp_all add: is_digit_def is_cspace_def item_size_def items_size_def)

lemma read_f_dd:
  "read_f ''dd'' (reader_at e behind ahead) =
     (if length (take 16 ahead) = 16
      then Inr (if length (unpack_items e [(1, CHR ''d''), (1, CHR ''d'')] (take 16 ahead)) = 1
                then hd (unpack_items e [(1, CHR ''d''), (1, CHR ''d'')] (take 16 ahead))
                else VTuple (unpack_items e [(1, CHR ''d''), (1, CHR ''d'')] (take 16 ahead)),
                reader_at e (rev (take 16 ahead) @ behind) (drop 16 ahead))
      else Inl StructError)"
  by (rule read_f_plain) (simp_all add: is_digit_def is_cspace_def item_size_def items_size_def)

lemma read_f_B:
  "read_f ''B'' (reader_at e behind ahead) =
     (if length (take 1 ahead) = 1
      then Inr (if length (unpack_items e [(1, CHR ''B'')] (take 1 ahead)) = 1
                then hd (unpack_items e [(1, CHR ''B'')] (take 1 ahead))
                else VTuple (unpack_items e [(1, CHR ''B'')] (take 1 ahead)),
                reader_at e (rev (take 1 ahead) @ behind) (drop 1 ahead))
      else Inl StructError)"
  by (rule read_f_plain) (simp_all add: is_digit_def is_cspace_def item_size_def items_size_def)

lemma read_f_ll:
  "read_f ''ll'' (reader_at e behind ahead) =
     (if length (take 8 ahead) = 8
      then Inr (if length (unpack_items e [(1, CHR ''l''), (1, CHR ''l'')] (take 8 ahead)) = 1
                then hd (unpack_items e [(1, CHR ''l''), (1, CHR ''l'')] (take 8 ahead))
                else VTuple (unpack_items e [(1, CHR ''l''), (1, CHR ''l'')] (take 8 ahead)),
                reader_at e (rev (take 8 ahead) @ behind) (drop 8 ahead))
      else Inl StructError)"
  by (rule read_f_plain) (simp_all add: is_digit_def is_cspace_def item_size_def items_size_def)

lemma read_f_HH:
  "read_f ''HH'' (reader_at e behind ahead) =
     (if length (take 4 ahead) = 4
      then Inr (if length (unpack_items e [(1, CHR ''H''), (1, CHR ''H'')] (take 4 ahead)) = 1
                then hd (unpack_items e [(1, CHR ''H''), (1, CHR ''H'')] (take 4 ahead))
                else VTuple (unpack_items e [(1, CHR ''H''), (1, CHR ''H'')] (take 4 ahead)),
                reader_at e (rev (take 4 ahead) @ behind) (drop 4 ahead))
      else Inl StructError)"
  by (rule read_f_plain) (simp_all add: is_digit_def is_cspace_def item_size_def items_size_def)

lemma read_f_80p:
  "read_f ''80p'' (reader_at e behind ahead) =
     (if length (take 80 ahead) = 80
      then Inr (if length (unpack_items e [(80, CHR ''p'')] (take 80 ahead)) = 1
                then hd (unpack_items e [(80, CHR ''p'')] (take 80 ahead))
                else VTuple (unpack_items e [(80, CHR ''p'')] (take 80 ahead)),
                reader_at e (rev (take 80 ahead) @ behind) (drop 80 ahead))
      else Inl StructError)"
  by (rule read_f_plain) (simp_all add: is_digit_def is_cspace_def item_size_def items_size_def)

lemma read_f_xBBB:
  "read_f ''xBBB'' (reader_at e behind ahead) =
     (if length (take 4 ahead) = 4
      then Inr (if length (unpack_items e [(1, CHR ''x''), (1, CHR ''B''), (1, CHR ''B''), (1, CHR ''B'')] (take 4 ahead)) = 1
                then hd (unpack_items e [(1, CHR ''x''), (1, CHR ''B''), (1, CHR ''B''), (1, CHR ''B'')] (take 4 ahead))
                else VTuple (unpack_items e [(1, CHR ''x''), (1, CHR ''B''), (1, CHR ''B''), (1, CHR ''B'')] (take 4 ahead)),
                reader_at e (rev (take 4 ahead) @ behind) (drop 4 ahead))
      else Inl StructError)"
  by (rule read_f_plain) (simp_all add: is_digit_def is_cspace_def item_size_def items_size_def)

lemma read_f_hll:
  "read_f ''hll'' (reader_at e behind ahead) =
     (if length (take 10 ahead) = 10
      then Inr (if length (unpack_items e [(1, CHR ''h''), (1, CHR ''l''), (1, CHR ''l'')] (take 10 ahead)) = 1
                then hd (unpack_items e [(1, CHR ''h''), (1, CHR ''l''), (1, CHR ''l'')] (take 10 ahead))
                else VTuple (unpack_items e [(1, CHR ''h''), (1, CHR ''l''), (1, CHR ''l'')] (take 10 ahead)),
                reader_at e (rev (take 10 ahead) @ behind) (drop 10 ahead))
      else Inl StructError)"
  by (rule read_f_plain) (simp_all add: is_digit_def is_cspace_def item_size_def items_size_def)

lemma read_f_5b:
  "read_f ''5b'' (reader_at e behind ahead) =
     (if length (take 5 ahead) = 5
      then Inr (if length (unpack_items e [(5, CHR ''b'')] (take 5 ahead)) = 1
                then hd (unpack_items e [(5, CHR ''b'')] (take 5 ahead))
                else VTuple (unpack_items e [(5, CHR ''b'')] (take 5 ahead)),
                reader_at e (rev (take 5 ahead) @ behind) (drop 5 ahead))
      else Inl StructError)"
  by (rule read_f_plain) (simp_all add: is_digit_def is_cspace_def item_size_def items_size_def)

lemma read_f_3l2d:
  "read_f ''3l2d'' (reader_at e behind ahead) =
     (if length (take 28 ahead) = 28
      then Inr (if length (unpack_items e [(3, CHR ''l''), (2, CHR ''d'')] (take 28 ahead)) = 1
                then hd (unpack_items e [(3, CHR ''l''), (2, CHR ''d'')] (take 28 ahead))
                else VTuple (unpack_items e [(3, CHR ''l''), (2, CHR ''d'')] (take 28 ahead)),
                reader_at e (rev (take 28 ahead) @ behind) (drop 28 ahead))
      else Inl StructError)"
  by (rule read_f_plain) (simp_all add: is_digit_def is_cspace_def item_size_def items_size_def)

lemma read_f_9l:
  "read_f ''9l'' (reader_at e behind ahead) =
     (if length (take 36 ahead) = 36
      then Inr (if length (unpack_items e [(9, CHR ''l'')] (take 36 ahead)) = 1
                then hd (unpack_items e [(9, CHR ''l'')] (take 36 ahead))
                else VTuple (unpack_items e [(9, CHR ''l'')] (take 36 ahead)),
                reader_at e (rev (take 36 ahead) @ behind) (drop 36 ahead))
      else Inl StructError)"
  by (rule read_f_plain) (simp_all add: is_digit_def is_cspace_def item_size_def items_size_def)

lemma read_f_d_9l_d_4l:
  "read_f ''d 9l d 4l'' (reader_at e behind ahead) =
     (if length (take 68 ahead) = 68
      then Inr (if length (unpack_items e [(1, CHR ''d''), (9, CHR ''l''), (1, CHR ''d''), (4, CHR ''l'')] (take 68 ahead)) = 1
                then hd (unpack_items e [(1, CHR ''d''), (9, CHR ''l''), (1, CHR ''d''), (4, CHR ''l'')] (take 68 ahead))
                else VTuple (unpack_items e [(1, CHR ''d''), (9, CHR ''l''), (1, CHR ''d''), (4, CHR ''l'')] (take 68 ahead)),
                reader_at e (rev (take 68 ahead) @ behind) (drop 68 ahead))
      else Inl StructError)"
  by (rule read_f_plain) (simp_all add: is_digit_def is_cspace_def item_size_def items_size_def)

lemma read_f_8l_3d_13l:
  "read_f ''8l 3d 13l'' (reader_at e behind ahead) =
     (if length (take 108 ahead) = 108
      then Inr (if length (unpack_items e [(8, CHR ''l''), (3, CHR ''d''), (13, CHR ''l'')] (take 108 ahead)) = 1
                then hd (unpack_items e [(8, CHR ''l''), (3, CHR ''d''), (13, CHR ''l'')] (take 108 ahead))
                else VTuple (unpack_items e [(8, CHR ''l''), (3, CHR ''d''), (13, CHR ''l'')] (take 108 ahead)),
                reader_at e (rev (take 108 ahead) @ behind) (drop 108 ahead))
      else Inl StructError)"
  by (rule read_f_plain) (simp_all add: is_digit_def is_cspace_def item_size_def items_size_def)

lemma read_f_7l:
  "read_f ''7l'' (reader_at e behind ahead) =
     (if length (take 28 ahead) = 28
      then Inr (if length (unpack_items e [(7, CHR ''l'')] (take 28 ahead)) = 1
                then hd (unpack_items e [(7, CHR ''l'')] (take 28 ahead))
                else VTuple (unpack_items e [(7, CHR ''l'')] (take 28 ahead)),
                reader_at e (rev (take 28 ahead) @ behind) (drop 28 ahead))
      else Inl StructError)"
  by (rule read_f_plain) (simp_all add: is_digit_def is_cspace_def item_size_def items_size_def)

lemmas read_f_evals = read_f_S read_f_Z read_string_reader_at read_bool_reader_at read_f_l1 read_f_d read_f_h read_f_f read_f_ff read_f_dd read_f_B read_f_ll read_f_HH read_f_80p read_f_xBBB read_f_hll read_f_5b read_f_3l2d read_f_9l read_f_d_9l_d_4l read_f_8l_3d_13l read_f_7l


lemmas value_defs = item_size_def unpack_scalar_def unpack_pascal_def bytes_nat_def be_nat_def
  to_signed_def as_int_def as_float_def as_str_def as_bytes_def as_pair_def decode_utf16_def
  read_int_def read_float_def read_float_pair_def

lemmas column_defs = read_column_def read_col_type_def read_title_def read_column_v1_def
  read_column_v2_def read_column_v3_def save_column_def np_memmap_def nbytes_def np_itemsize_def
  order_char_def truediv_def name_and_units_def split_def ustr_def float32_elems_def is_space_def
  join.simps strip_def is_cont_def cont_def second_ok_def

lemmas meta_defs = read_metadata_def read_trace_def read_group_def read_header_version_def
  TraceHeaderDescriptionV1_def TraceHeaderDescriptionV2_def GroupHeaderDescriptionV1_def
  FontSettingsDescription_def XAxisSettingsDescription_def EpochInfoDescription_def dict_set_def
  dict_get_def read_episode_list_def read_episodes_def font_categories_def read_font_settings_def
  FONT_BOLD_def FONT_NOT_BOLD_def FONT_ITALICS_def FONT_UNDERLINE_def FONT_STRIKEOUT_def
  read_events_def bound_def read_after_columns_def

lemmas file_parts = pascal80_def utf16be_def axgx_v3_def time_column_def vm_column_def
lemma replicate_numeral_eval: "replicate (numeral k) x = x # replicate (pred_numeral k) x"
  by (simp add: numeral_eq_Suc)

lemmas small_file_eval = read_file_header_def value_defs read_f_evals column_defs meta_defs loop_numerals
  reader_at_eval file_parts replicate_numeral_eval Let_def

text \<open>The sections of the example files of version 3, decoded wherever they stand in a file.\<close>

lemma unat_byte_less [simp]: "unat (y::byte) < 2147483648"
  using unsigned_less [of y, where 'a = nat] by simp

lemma read_trace_bytes:
  "read_trace 3 (reader_at BigEndian b (trace_bytes y g @ r)) =
     Inr (trace_info (uint y) (uint g), reader_at BigEndian (rev (trace_bytes y g) @ b) r)"
  by (simp add: trace_bytes_def trace_info_def value_defs read_f_evals meta_defs loop_numerals
      reader_at_eval replicate_numeral_eval Let_def cong: eval_congs)

lemma read_group_bytes:
  "read_group 3 (reader_at BigEndian b (group_bytes @ r)) =
     Inr (group_info, reader_at BigEndian (rev group_bytes @ b) r)"
  by (simp add: group_bytes_def group_info_def value_defs read_f_evals meta_defs loop_numerals
      reader_at_eval replicate_numeral_eval Let_def cong: eval_congs)

lemma read_font_bytes:
  "read_font_settings (reader_at BigEndian b (font_bytes @ r)) =
     Inr (font_info, reader_at BigEndian (rev font_bytes @ b) r)"
  by (simp add: font_bytes_def font_info_def value_defs read_f_evals meta_defs loop_numerals
      reader_at_eval truediv_def Let_def cong: eval_congs)

lemma read_x_axis_bytes:
  "read_description XAxisSettingsDescription [] (reader_at BigEndian b (x_axis_bytes @ r)) =
     Inr (x_axis_info, reader_at BigEndian (rev x_axis_bytes @ b) r)"
  by (simp add: x_axis_bytes_def x_axis_info_def value_defs read_f_evals meta_defs loop_numerals
      reader_at_eval replicate_numeral_eval Let_def cong: eval_congs)

lemma read_reserved_36:
  "read_f ''9l'' (reader_at BigEndian b (replicate 36 0 @ r)) =
     Inr (VTuple (replicate 9 (VInt 0)), reader_at BigEndian (replicate 36 0 @ b) r)"
  by (simp add: value_defs read_f_evals loop_numerals replicate_numeral_eval)

lemma read_reserved_68:
  "read_f ''d 9l d 4l'' (reader_at BigEndian b (replicate 68 0 @ r)) =
     Inr (VTuple (VFloat (PyFloat64 0) # replicate 9 (VInt 0) @ VFloat (PyFloat64 0) # replicate 4 (VInt 0)),
          reader_at BigEndian (replicate 68 0 @ b) r)"
  by (simp add: value_defs read_f_evals loop_numerals replicate_numeral_eval)

lemma read_reserved_108:
  "read_f ''8l 3d 13l'' (reader_at BigEndian b (replicate 108 0 @ r)) =
     Inr (VTuple (replicate 8 (VInt 0) @ replicate 3 (VFloat (PyFloat64 0)) @ replicate 13 (VInt 0)),
          reader_at BigEndian (replicate 108 0 @ b) r)"
  by (simp add: value_defs read_f_evals loop_numerals replicate_numeral_eval)

lemma read_reserved_28:
  "read_f ''7l'' (reader_at BigEndian b (replicate 28 0 @ r)) =
     Inr (VTuple (replicate 7 (VInt 0)), reader_at BigEndian (replicate 28 0 @ b) r)"
  by (simp add: value_defs read_f_evals loop_numerals replicate_numeral_eval)

lemma read_no_events:
  "read_events (reader_at BigEndian b (no_events @ r)) =
     Inr ((0, [], []), reader_at BigEndian (rev no_events @ b) r)"
  by (simp add: no_events_def value_defs read_f_evals meta_defs loop_numerals replicate_numeral_eval
      cong: eval_congs)

lemma section_lengths [simp]:
  "length (trace_bytes y g) = 156" "length group_bytes = 20" "length font_bytes = 13"
  "length x_axis_bytes = 84" "length no_events = 12"
  by (simp_all add: trace_bytes_def group_bytes_def font_bytes_def x_axis_bytes_def no_events_def)

lemma trace_info_keys:
  "dict_get (trace_info y g) ''group_id_for_this_trace'' = Inr (VInt g)"
  "dict_get (trace_info y g) ''y_index'' = Inr (VInt y)"
  by (simp_all add: trace_info_def dict_get_def)

lemmas section_evals = read_trace_bytes read_group_bytes read_font_bytes read_x_axis_bytes
  read_reserved_36 read_reserved_68 read_reserved_108 read_reserved_28 read_no_events

lemmas big_file_eval = read_file_header_def value_defs read_f_evals column_defs loop_numerals
  reader_at_eval file_parts Let_def section_evals read_metadata_def read_after_columns_def
  read_header_version_def read_episode_list_def read_episodes_def font_categories_def
  display_bytes_def no_annotations_def bound_def dict_set_def trace_info_keys

text \<open>The example files, decoded.\<close>

lemma heavy_file_v2: "do_the_heavy_lifting file_v2 = Inr decoded_v2"
  unfolding do_the_heavy_lifting_def reader_at_start
  by (simp add: small_file_eval file_v2_def decoded_v2_def cong: eval_congs)

lemma heavy_file_v2_trailing:
  "do_the_heavy_lifting file_v2_trailing = Inl (AssertionError ''rest_of_the_file'')"
  unfolding do_the_heavy_lifting_def reader_at_start
  by (simp add: small_file_eval file_v2_trailing_def file_v2_def cong: eval_congs)

lemma heavy_file_v1: "do_the_heavy_lifting file_v1 = Inr decoded_v1"
  unfolding do_the_heavy_lifting_def reader_at_start
  by (simp add: small_file_eval file_v1_def decoded_v1_def upt_conv_Cons cong: eval_congs)

lemma heavy_file_v1_empty_time: "do_the_heavy_lifting file_v1_empty_time = Inl IndexError"
  unfolding do_the_heavy_lifting_def reader_at_start
  by (simp add: small_file_eval file_v1_empty_time_def cong: eval_congs)

lemma heavy_file_type_99:
  "do_the_heavy_lifting file_type_99 = Inl (NotImplementedError ''unimplemented column type'')"
  unfolding do_the_heavy_lifting_def reader_at_start
  by (simp add: small_file_eval file_type_99_def cong: eval_congs)

lemma heavy_file_one_trace_two_columns:
  "do_the_heavy_lifting file_one_trace_two_columns = Inr decoded_one_trace_two_columns"
  unfolding do_the_heavy_lifting_def reader_at_start
  by (simp add: big_file_eval file_one_trace_two_columns_def decoded_one_trace_two_columns_def
      decoded_v3_def vm_channel_def vm_samples_def cong: eval_congs)

lemma heavy_file_two_episodes:
  "do_the_heavy_lifting file_two_episodes = Inr decoded_two_episodes"
  unfolding do_the_heavy_lifting_def reader_at_start
  by (simp add: big_file_eval file_two_episodes_def decoded_two_episodes_def
      decoded_v3_def vm_channel_def vm_samples_def cong: eval_congs)

lemma heavy_file_uneven_groups:
  "do_the_heavy_lifting file_uneven_groups = Inr decoded_uneven_groups"
  unfolding do_the_heavy_lifting_def reader_at_start
  by (simp add: big_file_eval file_uneven_groups_def decoded_uneven_groups_def
      decoded_v3_def vm_channel_def vm_samples_def cong: eval_congs)

section \<open>The claims on the example files\<close>

text \<open>
  On \<open>file_v2\<close>: the file is decoded, the two floats read after the title of column 0
  are the start time 0.0 and the sampling period 0.5, and the channel table holds
  column 1 only, with one sample array.
\<close>

theorem column_0_is_the_time_axis_witness:
  "do_the_heavy_lifting file_v2 = Inr decoded_v2
   \<and> (\<exists>hid ncols f0 n_points f1 col_type f2 title f3 f4.
         read_file_header \<lparr>byte_order = BigEndian, content = file_v2, pos = 0\<rparr>
           = Inr ((hid, 2, ncols), f0)
         \<and> 0 < ncols
         \<and> read_int ''l'' f0 = Inr (n_points, f1)
         \<and> read_col_type 2 f1 = Inr (col_type, f2)
         \<and> read_title 2 f2 = Inr (title, f3)
         \<and> read_float_pair ''ff'' f3 = Inr ((PyFloat32 0, PyFloat32 0x3F000000), f4)
         \<and> map chan_id (signal_channels (header decoded_v2)) = map int [1..<nat ncols])
   \<and> map chan_id (signal_channels (header decoded_v2)) = [1]
   \<and> raw_signals decoded_v2 = [[\<lparr>mm_dtype = ''>h'', mm_offset = 188, mm_shape = 3\<rparr>]]"
proof -
  have "format_ver (info decoded_v2) = 2" "self_t_start decoded_v2 = PyFloat32 0"
    "self_sampling_period decoded_v2 = PyFloat32 0x3F000000"
    "map chan_id (signal_channels (header decoded_v2)) = [1]"
    "raw_signals decoded_v2 = [[\<lparr>mm_dtype = ''>h'', mm_offset = 188, mm_shape = 3\<rparr>]]"
    by (simp_all add: decoded_v2_def)
  then show ?thesis
    using column_0_is_the_time_axis [OF heavy_file_v2] heavy_file_v2
    apply simp
    apply (elim exE conjE)
    apply (intro exI conjI)
    apply assumption+
    done
qed

text \<open>
  One byte after the last column of \<open>file_v2\<close>: the file without it is decoded, the
  file with it is not. No header is produced, with or without \<open>force_single_segment\<close>.
\<close>

theorem trailing_byte_is_fatal:
  "file_v2_trailing = file_v2 @ [0]
   \<and> do_the_heavy_lifting file_v2 = Inr decoded_v2
   \<and> do_the_heavy_lifting file_v2_trailing = Inl (AssertionError ''rest_of_the_file'')
   \<and> parse_header (=) False file_v2_trailing = Inl (AssertionError ''rest_of_the_file'')
   \<and> parse_header (=) True file_v2_trailing = Inl (AssertionError ''rest_of_the_file'')"
  by (simp add: heavy_file_v2 heavy_file_v2_trailing parse_header_def file_v2_trailing_def [symmetric])

text \<open>The columns of that file are decoded, and the reader stands one byte before the end.\<close>

lemma columns_file_v2_trailing:
  "\<exists>f0 f s. read_file_header \<lparr>byte_order = BigEndian, content = file_v2_trailing, pos = 0\<rparr>
               = Inr ((ustr ''AxGr'', 2, 2), f0)
     \<and> read_columns 2 0 2 f0
          \<lparr>t_start = None, sampling_period = None, sigs_memmap = [], sig_channels = []\<rparr> = Inr (f, s)
     \<and> pos f = 194 \<and> length (content f) = 195"
  unfolding reader_at_start
  by (simp add: small_file_eval file_v2_trailing_def file_v2_def cong: eval_congs)

text \<open>The same file: its header and its two columns are read, one byte is left, and decoding fails.\<close>

theorem legacy_trailing_bytes_witness:
  "\<exists>f0 f s. read_file_header \<lparr>byte_order = BigEndian, content = file_v2_trailing, pos = 0\<rparr>
               = Inr ((ustr ''AxGr'', 2, 2), f0)
     \<and> read_columns 2 0 2 f0
          \<lparr>t_start = None, sampling_period = None, sigs_memmap = [], sig_channels = []\<rparr> = Inr (f, s)
     \<and> pos f < length (content f)
     \<and> do_the_heavy_lifting file_v2_trailing = Inl (AssertionError ''rest_of_the_file'')
     \<and> parse_header (=) False file_v2_trailing = Inl (AssertionError ''rest_of_the_file'')"
proof -
  from columns_file_v2_trailing obtain f0 f s where
    h: "read_file_header \<lparr>byte_order = BigEndian, content = file_v2_trailing, pos = 0\<rparr>
               = Inr ((ustr ''AxGr'', 2, 2), f0)"
     "read_columns 2 0 (nat 2) f0
          \<lparr>t_start = None, sampling_period = None, sigs_memmap = [], sig_channels = []\<rparr> = Inr (f, s)"
     "pos f < length (content f)"
    by auto
  from legacy_trailing_bytes [OF h(1) _ h(2) h(3), of "(=)" False] h show ?thesis
    by auto
qed

text \<open>
  A version-1 file whose time column has 0 points is not decoded: the first element of
  the empty array is asked for.
\<close>

theorem empty_time_column_v1:
  "do_the_heavy_lifting file_v1_empty_time = Inl IndexError
   \<and> parse_header (=) False file_v1_empty_time = Inl IndexError
   \<and> parse_header (=) True file_v1_empty_time = Inl IndexError"
  by (simp add: heavy_file_v1_empty_time parse_header_def)

text \<open>The heuristic on the decoded files of version 3.\<close>

lemmas heuristic_eval = safe_to_treat_as_episodic_def decoded_v3_def trace_info_keys as_int_def
  unique_def rows_of_group_def uniform_def vm_channel_def drop_id_def

lemma safe_one_trace_two_columns:
  "safe_to_treat_as_episodic row_eq decoded_one_trace_two_columns = Inr True"
  by (simp add: decoded_one_trace_two_columns_def heuristic_eval)

lemma safe_two_episodes:
  "safe_to_treat_as_episodic (=) decoded_two_episodes = Inr True"
  by (simp add: decoded_two_episodes_def heuristic_eval)

lemma group_cols_uneven_groups:
  "group_cols [(0, group_info), (1, group_info)]
     [(1, trace_info 1 0), (2, trace_info 2 0), (3, trace_info 3 1)] = Inr [(0, [1, 2]), (1, [3])]"
  by (simp add: trace_info_keys as_int_def)

text \<open>
  \<open>file_one_trace_two_columns\<close> has one group, one trace and one episode, and two
  signal columns. The heuristic accepts it, and after the conversion the channel table
  still has two rows, for the columns 1 and 2, both in group 0: its rows are not one for
  each group.
\<close>

theorem one_group_two_channel_rows:
  "do_the_heavy_lifting file_one_trace_two_columns = Inr decoded_one_trace_two_columns
   \<and> safe_to_treat_as_episodic (=) decoded_one_trace_two_columns = Inr True
   \<and> parse_header (=) False file_one_trace_two_columns = Inr decoded_one_trace_two_columns
   \<and> map fst (group_header_info_list (the (v3 (info decoded_one_trace_two_columns)))) = [0]
   \<and> n_episodes (the (v3 (info decoded_one_trace_two_columns))) = 1
   \<and> nb_segment (header decoded_one_trace_two_columns) = [1]
   \<and> map chan_id (signal_channels (header decoded_one_trace_two_columns)) = [1, 2]
   \<and> map group_id (signal_channels (header decoded_one_trace_two_columns)) = [0, 0]"
  by (simp add: heavy_file_one_trace_two_columns safe_one_trace_two_columns parse_header_def
      convert_to_multi_segment_def reshape_first_def np_arange_def)
    (simp add: decoded_one_trace_two_columns_def decoded_v3_def vm_channel_def numeral_2_eq_2 [symmetric])

text \<open>
  \<open>file_two_episodes\<close>: two columns, both traces of the one group, and two episodes.
  The heuristic accepts it; the conversion gives two segments, keeps the first row of the
  channel table, and gives each segment one of the two sample arrays.
\<close>

theorem episodic_conversion_witness:
  "do_the_heavy_lifting file_two_episodes = Inr decoded_two_episodes
   \<and> safe_to_treat_as_episodic (=) decoded_two_episodes = Inr True
   \<and> (\<exists>self'. parse_header (=) False file_two_episodes = Inr self'
         \<and> nb_segment (header self') = [2]
         \<and> signal_channels (header self') = [vm_channel 1]
         \<and> raw_signals self' = [[vm_samples 1], [vm_samples 2]])"
proof -
  have d: "v3 (info decoded_two_episodes) = Some i3 \<Longrightarrow> n_episodes i3 = 2"
    "signal_channels (header decoded_two_episodes) = [vm_channel 1, vm_channel 2]"
    "raw_signals decoded_two_episodes = [[vm_samples 1, vm_samples 2]]" for i3
    by (auto simp add: decoded_two_episodes_def decoded_v3_def)
  from episodic_conversion [OF heavy_file_two_episodes safe_two_episodes]
  obtain i3 sigs where h: "v3 (info decoded_two_episodes) = Some i3"
    "raw_signals decoded_two_episodes = [sigs]"
    "if int (length sigs) mod n_episodes i3 = 0 then
                 \<exists>self'. parse_header (=) False file_two_episodes = Inr self'
                   \<and> nb_segment (header self') = [n_episodes i3]
                   \<and> signal_channels (header self')
                       = take (length sigs div nat (n_episodes i3)) (signal_channels (header decoded_two_episodes))
                   \<and> raw_signals self'
                       = map (\<lambda>j. take (length sigs div nat (n_episodes i3))
                                    (drop (j * (length sigs div nat (n_episodes i3))) sigs))
                             [0..<nat (n_episodes i3)]
                   \<and> length (raw_signals self') = nat (n_episodes i3)
                   \<and> list_all (\<lambda>seg. length seg = length sigs div nat (n_episodes i3)) (raw_signals self')
                   \<and> concat (raw_signals self') = sigs
                   \<and> sum_list (map length (raw_signals self')) = length sigs
               else parse_header (=) False file_two_episodes = Inl ValueError"
    by blast
  from h(1) have n: "n_episodes i3 = 2" by (rule d(1))
  from h(2) have sigs: "sigs = [vm_samples 1, vm_samples 2]" by (simp add: d(3))
  from h(3) show ?thesis
    by (auto simp add: heavy_file_two_episodes safe_two_episodes n sigs d(2) upt_conv_Cons)
qed

text \<open>
  \<open>file_uneven_groups\<close>: group 0 holds the columns 1 and 2, group 1 holds column 3.
  The heuristic answers False and the file keeps its single segment with the three
  channels in column order.
\<close>

theorem uneven_groups_stay_single_segment_witness:
  "do_the_heavy_lifting file_uneven_groups = Inr decoded_uneven_groups
   \<and> group_cols [(0, group_info), (1, group_info)]
        [(1, trace_info 1 0), (2, trace_info 2 0), (3, trace_info 3 1)] = Inr [(0, [1, 2]), (1, [3])]
   \<and> safe_to_treat_as_episodic (=) decoded_uneven_groups = Inr False
   \<and> parse_header (=) False file_uneven_groups = Inr decoded_uneven_groups
   \<and> nb_segment (header decoded_uneven_groups) = [1]
   \<and> raw_signals decoded_uneven_groups = [[vm_samples 1, vm_samples 2, vm_samples 3]]
   \<and> map chan_id (signal_channels (header decoded_uneven_groups)) = [1, 2, 3]"
proof -
  have i3: "v3 (info decoded_uneven_groups) = Some (the (v3 (info decoded_uneven_groups)))"
    by (simp add: decoded_uneven_groups_def decoded_v3_def)
  have g: "group_cols (group_header_info_list (the (v3 (info decoded_uneven_groups))))
             (trace_header_info_list (the (v3 (info decoded_uneven_groups)))) = Inr [(0, [1, 2]), (1, [3])]"
    using group_cols_uneven_groups by (simp add: decoded_uneven_groups_def decoded_v3_def)
  have "raw_signals decoded_uneven_groups = [[vm_samples 1, vm_samples 2, vm_samples 3]]"
    "map chan_id (signal_channels (header decoded_uneven_groups)) = [1, 2, 3]"
    by (simp_all add: decoded_uneven_groups_def decoded_v3_def vm_channel_def)
  then show ?thesis
    using uneven_groups_stay_single_segment [OF heavy_file_uneven_groups i3 g, of 0 "[1, 2]" 1 "[3]" "(=)" False]
      heavy_file_uneven_groups group_cols_uneven_groups
    by simp
qed

text \<open>
  \<open>file_two_episodes\<close> with \<open>force_single_segment\<close> set: one segment, although
  the heuristic would accept the file.
\<close>

theorem forced_single_segment_witness:
  "parse_header (=) True file_two_episodes = Inr decoded_two_episodes
   \<and> safe_to_treat_as_episodic (=) decoded_two_episodes = Inr True
   \<and> nb_segment (header decoded_two_episodes) = [1]
   \<and> do_the_heavy_lifting file_two_episodes = Inr decoded_two_episodes"
proof -
  have "parse_header (=) True file_two_episodes = Inr decoded_two_episodes"
    by (simp add: parse_header_def heavy_file_two_episodes)
  from forced_single_segment [OF this, of "(=)"] this safe_two_episodes show ?thesis
    by simp
qed

text \<open>
  \<open>file_type_99\<close>: the time column is decoded; column 1 has 0 points, the type tag 99
  and an empty title.
\<close>

lemma columns_file_type_99:
  "\<exists>f0 f s f1 f2 f3.
     read_file_header \<lparr>byte_order = BigEndian, content = file_type_99, pos = 0\<rparr>
       = Inr ((ustr ''axgx'', 3, 2), f0)
     \<and> read_columns 3 0 1 f0
          \<lparr>t_start = None, sampling_period = None, sigs_memmap = [], sig_channels = []\<rparr> = Inr (f, s)
     \<and> read_int ''l'' f = Inr (0, f1)
     \<and> read_int ''l'' f1 = Inr (99, f2)
     \<and> read_title 3 f2 = Inr ([], f3)
     \<and> sig_channels s = []"
  unfolding reader_at_start
  by (simp add: small_file_eval file_type_99_def cong: eval_congs)

text \<open>For that file the loop body fails at column 1, no channel has been emitted, and decoding fails.\<close>

theorem unknown_column_type_witness:
  "\<exists>f0 f s f1 f2 f3.
     read_file_header \<lparr>byte_order = BigEndian, content = file_type_99, pos = 0\<rparr>
       = Inr ((ustr ''axgx'', 3, 2), f0)
     \<and> read_columns 3 0 1 f0
          \<lparr>t_start = None, sampling_period = None, sigs_memmap = [], sig_channels = []\<rparr> = Inr (f, s)
     \<and> read_int ''l'' f = Inr (0, f1)
     \<and> read_int ''l'' f1 = Inr (99, f2)
     \<and> read_title 3 f2 = Inr ([], f3)
     \<and> sig_channels s = []
     \<and> read_column 3 1 f s = Inl (NotImplementedError ''unimplemented column type'')
     \<and> do_the_heavy_lifting file_type_99 = Inl (NotImplementedError ''unimplemented column type'')
     \<and> parse_header (=) True file_type_99 = Inl (NotImplementedError ''unimplemented column type'')"
proof -
  from columns_file_type_99 obtain f0 f s f1 f2 f3 where
    h: "read_file_header \<lparr>byte_order = BigEndian, content = file_type_99, pos = 0\<rparr>
          = Inr ((ustr ''axgx'', 3, 2), f0)"
      "read_columns 3 0 1 f0
          \<lparr>t_start = None, sampling_period = None, sigs_memmap = [], sig_channels = []\<rparr> = Inr (f, s)"
      "read_int ''l'' f = Inr (0, f1)"
      "read_int ''l'' f1 = Inr (99, f2)"
      "read_title 3 f2 = Inr ([], f3)"
      "sig_channels s = []"
    by blast
  have "(3::int) \<le> 3" "1 < nat 2" "(99::int) \<notin> {9, 4, 5, 6, 7, 10}" by simp_all
  from unknown_column_type [OF h(1) this(1,2) h(2-5) this(3), of "(=)" True] h show ?thesis
    by blast
qed

text \<open>
  \<open>file_v1\<close>: after the time column, column 1 has 0 points and the title \<open>Vm (mV)\<close>;
  the loop body appends the channel of the decoded file for it.
\<close>

lemma columns_file_v1:
  "\<exists>f0 f s f1 f2 f3 f'.
     read_file_header \<lparr>byte_order = BigEndian, content = file_v1, pos = 0\<rparr>
       = Inr ((ustr ''AxGr'', 1, 2), f0)
     \<and> read_columns 1 0 1 f0
          \<lparr>t_start = None, sampling_period = None, sigs_memmap = [], sig_channels = []\<rparr> = Inr (f, s)
     \<and> sig_channels s = [] \<and> sampling_period s = Some (NpMedianDiff [0, 0x3F000000])
     \<and> read_int ''l'' f = Inr (0, f1)
     \<and> read_col_type 1 f1 = Inr (None, f2)
     \<and> read_title 1 f2 = Inr (ustr ''Vm (mV)'', f3)
     \<and> byte_order f3 = BigEndian \<and> pos f3 = 184 \<and> length (content f3) = 184
     \<and> read_column 1 1 f s =
         Inr (f', s\<lparr>sigs_memmap := [\<lparr>mm_dtype = ''>f'', mm_offset = 184, mm_shape = 0\<rparr>],
                    sig_channels := signal_channels (header decoded_v1)\<rparr>)"
  unfolding reader_at_start
  by (simp add: small_file_eval file_v1_def decoded_v1_def upt_conv_Cons cong: eval_congs)

text \<open>Column 1 of \<open>file_v1\<close>, a column of floats: gain 1, offset 0, and the sample 7 is rescaled to 7.\<close>

theorem unscaled_columns_have_identity_gain_witness:
  "\<exists>f0 f s f1 f2 f3 f' s' c.
     read_file_header \<lparr>byte_order = BigEndian, content = file_v1, pos = 0\<rparr>
       = Inr ((ustr ''AxGr'', 1, 2), f0)
     \<and> read_columns 1 0 1 f0
          \<lparr>t_start = None, sampling_period = None, sigs_memmap = [], sig_channels = []\<rparr> = Inr (f, s)
     \<and> read_column 1 1 f s = Inr (f', s')
     \<and> read_int ''l'' f = Inr (0, f1)
     \<and> read_col_type 1 f1 = Inr (None, f2)
     \<and> read_title 1 f2 = Inr (ustr ''Vm (mV)'', f3)
     \<and> sig_channels s' = sig_channels s @ [c] \<and> gain c = PyInt 1 \<and> offset c = PyInt 0
     \<and> rescale_sample (7::int) (gain c) (offset c) = Some 7"
proof -
  from columns_file_v1 obtain f0 f s f1 f2 f3 f' s' where
    h: "read_file_header \<lparr>byte_order = BigEndian, content = file_v1, pos = 0\<rparr>
          = Inr ((ustr ''AxGr'', 1, 2), f0)"
      "read_columns 1 0 1 f0
          \<lparr>t_start = None, sampling_period = None, sigs_memmap = [], sig_channels = []\<rparr> = Inr (f, s)"
      "read_column 1 1 f s = Inr (f', s')"
      "read_int ''l'' f = Inr (0, f1)"
      "read_col_type 1 f1 = Inr (None, f2)"
      "read_title 1 f2 = Inr (ustr ''Vm (mV)'', f3)"
    by blast
  from unscaled_columns_have_identity_gain [OF h(3-6)]
  obtain c where "sig_channels s' = sig_channels s @ [c]" "gain c = PyInt 1" "offset c = PyInt 0"
    "\<forall>x::int. rescale_sample x (gain c) (offset c) = Some x"
    by auto
  with h show ?thesis by blast
qed

text \<open>
  Column 1 of \<open>file_v1\<close> has 0 points: when its title has been read the reader is at
  the end of the file, at 184, and the column is saved there with an empty array. Read as
  a time column of version 1, the same column is an IndexError.
\<close>

theorem empty_column_witness:
  "sampling_period \<lparr>t_start = Some (NpFloat32 0), sampling_period = Some (NpMedianDiff [0, 0x3F000000]),
                     sigs_memmap = [], sig_channels = []\<rparr> = Some (NpMedianDiff [0, 0x3F000000])
   \<and> \<not> py_is_zero (NpMedianDiff [0, 0x3F000000])
   \<and> pos \<lparr>byte_order = BigEndian, content = file_v1, pos = 184\<rparr>
        \<le> length (content \<lparr>byte_order = BigEndian, content = file_v1, pos = 184\<rparr>)
   \<and> save_column 1 0 (ustr ''Vm'') (ustr ''mV'') ''f'' (PyInt 1) (PyInt 0)
        \<lparr>byte_order = BigEndian, content = file_v1, pos = 184\<rparr>
        \<lparr>t_start = Some (NpFloat32 0), sampling_period = Some (NpMedianDiff [0, 0x3F000000]),
         sigs_memmap = [], sig_channels = []\<rparr>
      = Inr (\<lparr>byte_order = BigEndian, content = file_v1, pos = 184\<rparr>,
             \<lparr>t_start = Some (NpFloat32 0), sampling_period = Some (NpMedianDiff [0, 0x3F000000]),
              sigs_memmap = [\<lparr>mm_dtype = ''>f'', mm_offset = 184, mm_shape = 0\<rparr>],
              sig_channels = signal_channels (header decoded_v1)\<rparr>)
   \<and> read_column_v1 0 0 (ustr ''Vm'') (ustr ''mV'')
        \<lparr>byte_order = BigEndian, content = file_v1, pos = 184\<rparr>
        \<lparr>t_start = Some (NpFloat32 0), sampling_period = Some (NpMedianDiff [0, 0x3F000000]),
         sigs_memmap = [], sig_channels = []\<rparr> = Inl IndexError
   \<and> do_the_heavy_lifting file_v1 = Inr decoded_v1
   \<and> raw_signals decoded_v1 = [[\<lparr>mm_dtype = ''>f'', mm_offset = 184, mm_shape = 0\<rparr>]]"
proof -
  have len: "length file_v1 = 184" by (simp add: file_v1_def pascal80_def)
  have "raw_signals decoded_v1 = [[\<lparr>mm_dtype = ''>f'', mm_offset = 184, mm_shape = 0\<rparr>]]"
    "signal_channels (header decoded_v1) =
       [\<lparr>name = ustr ''Vm'', chan_id = 1, sampling_rate = Quot (PyInt 1) (NpMedianDiff [0, 0x3F000000]),
         dtype = ''>f'', units = ustr ''mV'', gain = PyInt 1, offset = PyInt 0, group_id = 0\<rparr>]"
    by (simp_all add: decoded_v1_def)
  then show ?thesis
    using empty_column [of "\<lparr>t_start = Some (NpFloat32 0), sampling_period = Some (NpMedianDiff [0, 0x3F000000]),
                     sigs_memmap = [], sig_channels = []\<rparr>" "NpMedianDiff [0, 0x3F000000]"
             "\<lparr>byte_order = BigEndian, content = file_v1, pos = 184\<rparr>" 1 "ustr ''Vm''" "ustr ''mV''" "''f''"
             "PyInt 1" "PyInt 0" 0]
      heavy_file_v1
    by (simp add: len order_char_def)
qed

end
